theory Spec2Isabelle
  imports Complex_Main
begin

section \<open>Numbers\<close>

text \<open>
  The program computes with JavaScript numbers. They are modelled as real numbers:
  rounding, NaN and the infinities are outside the model, and \<open>Math.PI\<close> is \<open>pi\<close>.
  Every call of \<open>Math.random()\<close> is an explicit argument (a draw from \<open>[0, 1)\<close>),
  named after the place of the call. One sum is not taken as exact: the settling clock of
  the ship is a running sum of frame times compared with 0.5, and which frame crosses the
  threshold depends on how the doubles round, so the addition of the clock is an argument
  of the frame function.
\<close>

definition js_rem :: "real \<Rightarrow> real \<Rightarrow> real" where
  \<comment> \<open>The operator \<open>%\<close>: the remainder of the division truncated towards zero, so the
      result has the sign of the dividend. The divisor is never zero in this program.\<close>
  "js_rem a b = a - b * of_int (if 0 \<le> a / b then \<lfloor>a / b\<rfloor> else \<lceil>a / b\<rceil>)"

section \<open>models/WindModel\<close>

datatype WindStrength =
    Calm | LightAir | LightBreeze | GentleBreeze | ModerateBreeze | FreshBreeze
  | StrongBreeze | NearGale | Gale | StrongGale | Storm | ViolentStorm | Hurricane

record WindState =
  direction :: real
  strength :: WindStrength
  speedKnots :: real
  fluctuation :: real

fun getWindSpeed :: "WindStrength \<Rightarrow> real" where
  "getWindSpeed Calm = 2"
| "getWindSpeed LightAir = 5"
| "getWindSpeed LightBreeze = 9"
| "getWindSpeed GentleBreeze = 14"
| "getWindSpeed ModerateBreeze = 19"
| "getWindSpeed FreshBreeze = 25"
| "getWindSpeed StrongBreeze = 31"
| "getWindSpeed NearGale = 37"
| "getWindSpeed Gale = 44"
| "getWindSpeed StrongGale = 52"
| "getWindSpeed Storm = 60"
| "getWindSpeed ViolentStorm = 68"
| "getWindSpeed Hurricane = 75"

definition getAngleBetweenWindAndShip :: "real \<Rightarrow> real \<Rightarrow> real" where
  "getAngleBetweenWindAndShip shipHeading windDirection =
     (let normShipHeading = js_rem shipHeading (2 * pi);
          normWindDirection = js_rem windDirection (2 * pi);
          angleDiff = \<bar>normShipHeading - normWindDirection\<bar>
      in if angleDiff > pi then 2 * pi - angleDiff else angleDiff)"

definition getPointOfSailMultiplier :: "real \<Rightarrow> real" where
  "getPointOfSailMultiplier angleBetweenWindAndShip =
     (let angleDegrees = angleBetweenWindAndShip * (180 / pi)
      in if angleDegrees \<le> 30 then 0.1
         else if angleDegrees \<le> 60 then 0.5
         else if angleDegrees \<le> 90 then 0.7
         else if angleDegrees \<le> 120 then 1.0
         else if angleDegrees \<le> 150 then 0.9
         else 0.6)"

section \<open>store/useWindStore\<close>

definition randomInRange :: "real \<Rightarrow> real \<Rightarrow> real \<Rightarrow> real" where
  \<comment> \<open>The first argument is the draw of \<open>Math.random()\<close>.\<close>
  "randomInRange r lo hi = r * (hi - lo) + lo"

definition getRandomWindStrength :: "real \<Rightarrow> WindStrength" where
  "getRandomWindStrength rand =
     (if rand < 0.05 then Calm
      else if rand < 0.15 then LightAir
      else if rand < 0.3 then LightBreeze
      else if rand < 0.5 then GentleBreeze
      else if rand < 0.7 then ModerateBreeze
      else if rand < 0.85 then FreshBreeze
      else if rand < 0.92 then StrongBreeze
      else if rand < 0.96 then NearGale
      else if rand < 0.98 then Gale
      else if rand < 0.99 then StrongGale
      else if rand < 0.995 then Storm
      else if rand < 0.998 then ViolentStorm
      else Hurricane)"

definition initialState :: WindState where
  "initialState =
     \<lparr>direction = 0, strength = ModerateBreeze,
      speedKnots = getWindSpeed ModerateBreeze, fluctuation = 0.2\<rparr>"

definition setDirection :: "real \<Rightarrow> WindState \<Rightarrow> WindState" where
  "setDirection d state = state\<lparr>direction := d\<rparr>"

definition setStrength :: "WindStrength \<Rightarrow> WindState \<Rightarrow> WindState" where
  "setStrength s state = state\<lparr>strength := s, speedKnots := getWindSpeed s\<rparr>"

definition setFluctuation :: "real \<Rightarrow> WindState \<Rightarrow> WindState" where
  "setFluctuation f state = state\<lparr>fluctuation := f\<rparr>"

definition strengths :: "WindStrength list" where
  \<comment> \<open>\<open>Object.values(WindStrength)\<close>: the members in declaration order.\<close>
  "strengths =
     [Calm, LightAir, LightBreeze, GentleBreeze, ModerateBreeze, FreshBreeze,
      StrongBreeze, NearGale, Gale, StrongGale, Storm, ViolentStorm, Hurricane]"

fun indexOf :: "'a list \<Rightarrow> 'a \<Rightarrow> int" where
  \<comment> \<open>\<open>Array.prototype.indexOf\<close>: the first position of the element, or -1.\<close>
  "indexOf [] v = -1"
| "indexOf (u # us) v =
     (if u = v then 0 else (let i = indexOf us v in if i < 0 then -1 else i + 1))"

record UpdateDraws =
  gateDraw :: real      \<comment> \<open>compared with \<open>fluctuation * delta * 0.5\<close>\<close>
  directionDraw :: real \<comment> \<open>inside \<open>randomInRange(-0.05, 0.05)\<close>\<close>
  strengthGate :: real  \<comment> \<open>compared with 0.01\<close>
  stepDraw :: real      \<comment> \<open>\<open>rand\<close>, compared with 0.35 and 0.7\<close>
  resampleDraw :: real  \<comment> \<open>inside \<open>getRandomWindStrength()\<close>\<close>

definition stepStrength :: "UpdateDraws \<Rightarrow> WindStrength \<Rightarrow> WindStrength" where
  \<comment> \<open>The body of \<open>if (Math.random() < 0.01) { ... }\<close> in \<open>updateWind\<close>.\<close>
  "stepStrength dr cur =
     (let currentIndex = indexOf strengths cur;
          rand = stepDraw dr
      in if rand < 0.35 \<and> currentIndex > 0 then strengths ! nat (currentIndex - 1)
         else if rand < 0.7 \<and> currentIndex < int (length strengths) - 1
              then strengths ! nat (currentIndex + 1)
         else getRandomWindStrength (resampleDraw dr))"

definition updateWind :: "real \<Rightarrow> UpdateDraws \<Rightarrow> WindState \<Rightarrow> WindState" where
  "updateWind delta dr state =
     (if gateDraw dr < fluctuation state * delta * 0.5 then
        (let directionChange = randomInRange (directionDraw dr) (-0.05) 0.05 * fluctuation state;
             newDirection = js_rem (direction state + directionChange) (pi * 2);
             newStrength = (if strengthGate dr < 0.01 then stepStrength dr (strength state)
                            else strength state)
         in state\<lparr>direction := newDirection, strength := newStrength,
                  speedKnots := getWindSpeed newStrength\<rparr>)
      else state)"

record RandomizeDraws =
  rzDirection :: real  \<comment> \<open>\<open>Math.random() * Math.PI * 2\<close>\<close>
  rzStrength :: real   \<comment> \<open>the \<open>getRandomWindStrength()\<close> of the field \<open>strength\<close>\<close>
  rzSpeed :: real      \<comment> \<open>the \<open>getRandomWindStrength()\<close> of the field \<open>speedKnots\<close>\<close>
  rzFluctuation :: real

definition randomizeWind :: "RandomizeDraws \<Rightarrow> WindState \<Rightarrow> WindState" where
  "randomizeWind dr state =
     state\<lparr>direction := rzDirection dr * pi * 2,
           strength := getRandomWindStrength (rzStrength dr),
           speedKnots := getWindSpeed (getRandomWindStrength (rzSpeed dr)),
           fluctuation := randomInRange (rzFluctuation dr) 0.1 0.4\<rparr>"

text \<open>One category down and one category up, staying at the ends of the scale.\<close>

fun clampedDown :: "WindStrength \<Rightarrow> WindStrength" where
  "clampedDown Calm = Calm"
| "clampedDown LightAir = Calm"
| "clampedDown LightBreeze = LightAir"
| "clampedDown GentleBreeze = LightBreeze"
| "clampedDown ModerateBreeze = GentleBreeze"
| "clampedDown FreshBreeze = ModerateBreeze"
| "clampedDown StrongBreeze = FreshBreeze"
| "clampedDown NearGale = StrongBreeze"
| "clampedDown Gale = NearGale"
| "clampedDown StrongGale = Gale"
| "clampedDown Storm = StrongGale"
| "clampedDown ViolentStorm = Storm"
| "clampedDown Hurricane = ViolentStorm"

fun clampedUp :: "WindStrength \<Rightarrow> WindStrength" where
  "clampedUp Calm = LightAir"
| "clampedUp LightAir = LightBreeze"
| "clampedUp LightBreeze = GentleBreeze"
| "clampedUp GentleBreeze = ModerateBreeze"
| "clampedUp ModerateBreeze = FreshBreeze"
| "clampedUp FreshBreeze = StrongBreeze"
| "clampedUp StrongBreeze = NearGale"
| "clampedUp NearGale = Gale"
| "clampedUp Gale = StrongGale"
| "clampedUp StrongGale = Storm"
| "clampedUp Storm = ViolentStorm"
| "clampedUp ViolentStorm = Hurricane"
| "clampedUp Hurricane = Hurricane"

section \<open>three.js vectors\<close>

text \<open>
  The operations of \<open>THREE.Vector3\<close> and \<open>THREE.Matrix4\<close> that the program calls, by
  their definitions in the library. Operations that mutate their receiver return the new
  vector.
\<close>

record vec3 =
  vx :: real
  vy :: real
  vz :: real

definition vec :: "real \<Rightarrow> real \<Rightarrow> real \<Rightarrow> vec3" where
  "vec a b c = \<lparr>vx = a, vy = b, vz = c\<rparr>"

definition add :: "vec3 \<Rightarrow> vec3 \<Rightarrow> vec3" where
  "add u v = vec (vx u + vx v) (vy u + vy v) (vz u + vz v)"

definition sub :: "vec3 \<Rightarrow> vec3 \<Rightarrow> vec3" where
  "sub u v = vec (vx u - vx v) (vy u - vy v) (vz u - vz v)"

definition multiplyScalar :: "vec3 \<Rightarrow> real \<Rightarrow> vec3" where
  "multiplyScalar v k = vec (vx v * k) (vy v * k) (vz v * k)"

definition dot :: "vec3 \<Rightarrow> vec3 \<Rightarrow> real" where
  "dot u v = vx u * vx v + vy u * vy v + vz u * vz v"

definition lengthSq :: "vec3 \<Rightarrow> real" where
  "lengthSq v = vx v * vx v + vy v * vy v + vz v * vz v"

definition length' :: "vec3 \<Rightarrow> real" where
  "length' v = sqrt (lengthSq v)"

definition normalize :: "vec3 \<Rightarrow> vec3" where
  \<comment> \<open>\<open>divideScalar(this.length() || 1)\<close>\<close>
  "normalize v = multiplyScalar v (1 / (if length' v = 0 then 1 else length' v))"

definition crossVectors :: "vec3 \<Rightarrow> vec3 \<Rightarrow> vec3" where
  "crossVectors a b =
     vec (vy a * vz b - vz a * vy b) (vz a * vx b - vx a * vz b) (vx a * vy b - vy a * vx b)"

definition projectOnVector :: "vec3 \<Rightarrow> vec3 \<Rightarrow> vec3" where
  "projectOnVector this v =
     (let denominator = lengthSq v
      in if denominator = 0 then vec 0 0 0
         else multiplyScalar v (dot v this / denominator))"

definition projectOnPlane :: "vec3 \<Rightarrow> vec3 \<Rightarrow> vec3" where
  "projectOnPlane this planeNormal = sub this (projectOnVector this planeNormal)"

definition applyAxisAngleY :: "vec3 \<Rightarrow> real \<Rightarrow> vec3" where
  \<comment> \<open>\<open>applyAxisAngle(new THREE.Vector3(0, 1, 0), angle)\<close>: the rotation about the Y axis.\<close>
  "applyAxisAngleY v angle =
     vec (vx v * cos angle + vz v * sin angle) (vy v) (vz v * cos angle - vx v * sin angle)"

record Matrix4 =
  \<comment> \<open>A matrix built by \<open>makeRotationY(angle)\<close> followed by \<open>setPosition(p)\<close>.\<close>
  rotationY :: real
  translation :: vec3

definition applyMatrix4 :: "vec3 \<Rightarrow> Matrix4 \<Rightarrow> vec3" where
  "applyMatrix4 v m =
     add (applyAxisAngleY v (rotationY m)) (translation m)"

definition atan2_pos :: "real \<Rightarrow> real \<Rightarrow> real" where
  \<comment> \<open>\<open>Math.atan2(y, x)\<close> where the second argument is positive.\<close>
  "atan2_pos b a = arctan (b / a)"

definition windDirectionToVector :: "real \<Rightarrow> vec3" where
  "windDirectionToVector d = normalize (vec (cos d) 0 (sin d))"

section \<open>models/ShipTypes\<close>

datatype ShipClass = Sloop | Frigate | Galleon | WarGalleon | PinnaceBrig | MerchantBrig

record ShipStats =
  speed :: real
  maneuverability :: real
  cannons :: real
  cargoCapacity :: real
  crewCapacity :: real
  health :: real
  draft :: real
  displacement :: real
  hullLength :: real  \<comment> \<open>the field \<open>length\<close>\<close>
  width :: real
  sailArea :: real

record ShipDamage =
  hullIntegrity :: real
  sailIntegrity :: real
  mastIntegrity :: real
  rudderIntegrity :: real

fun SHIP_STATS :: "ShipClass \<Rightarrow> ShipStats" where
  "SHIP_STATS Sloop =
     \<lparr>speed = 8, maneuverability = 9, cannons = 8, cargoCapacity = 40, crewCapacity = 75,
      health = 400, draft = 2.5, displacement = 150, hullLength = 18, width = 5.5,
      sailArea = 180\<rparr>"
| "SHIP_STATS Frigate =
     \<lparr>speed = 6, maneuverability = 7, cannons = 24, cargoCapacity = 80, crewCapacity = 200,
      health = 800, draft = 4.2, displacement = 700, hullLength = 45, width = 12,
      sailArea = 1200\<rparr>"
| "SHIP_STATS Galleon =
     \<lparr>speed = 4, maneuverability = 3, cannons = 30, cargoCapacity = 160, crewCapacity = 300,
      health = 1200, draft = 5.8, displacement = 1500, hullLength = 50, width = 16,
      sailArea = 1800\<rparr>"
| "SHIP_STATS WarGalleon =
     \<lparr>speed = 5, maneuverability = 4, cannons = 46, cargoCapacity = 120, crewCapacity = 350,
      health = 1600, draft = 6.0, displacement = 1800, hullLength = 55, width = 18,
      sailArea = 2000\<rparr>"
| "SHIP_STATS PinnaceBrig =
     \<lparr>speed = 7, maneuverability = 8, cannons = 16, cargoCapacity = 60, crewCapacity = 120,
      health = 600, draft = 3.2, displacement = 280, hullLength = 25, width = 7,
      sailArea = 400\<rparr>"
| "SHIP_STATS MerchantBrig =
     \<lparr>speed = 5, maneuverability = 6, cannons = 12, cargoCapacity = 100, crewCapacity = 100,
      health = 700, draft = 3.8, displacement = 450, hullLength = 32, width = 9,
      sailArea = 650\<rparr>"

definition createDefaultShipDamage :: ShipDamage where
  "createDefaultShipDamage =
     \<lparr>hullIntegrity = 1, sailIntegrity = 1, mastIntegrity = 1, rudderIntegrity = 1\<rparr>"

section \<open>components/world/Ocean\<close>

definition WAVE_RESOLUTION :: int where "WAVE_RESOLUTION = 40"
definition WAVE_SIZE :: real where "WAVE_SIZE = 100"

record OceanState =
  waveHeightMap :: "real list"  \<comment> \<open>the \<open>Float32Array\<close>\<close>

definition newOceanState :: OceanState where
  \<comment> \<open>\<open>new Float32Array(WAVE_RESOLUTION * WAVE_RESOLUTION)\<close>: all zero.\<close>
  "newOceanState = \<lparr>waveHeightMap = replicate (nat (WAVE_RESOLUTION * WAVE_RESOLUTION)) 0\<rparr>"

definition readFloat32Array :: "real list \<Rightarrow> int \<Rightarrow> real option" where
  \<comment> \<open>An indexed read of a typed array; outside the array it gives \<open>undefined\<close>, here \<open>None\<close>.\<close>
  "readFloat32Array a i = (if 0 \<le> i \<and> i < int (length a) then Some (a ! nat i) else None)"

definition ocean_getWaveHeight :: "OceanState \<Rightarrow> real \<Rightarrow> real \<Rightarrow> real option" where
  \<comment> \<open>\<open>scene.userData.ocean.getWaveHeight\<close>\<close>
  "ocean_getWaveHeight oceanState x z =
     (let gridSize = WAVE_SIZE;
          halfSize = gridSize / 2;
          normalizedX = (x + halfSize) / gridSize;
          normalizedZ = (z + halfSize) / gridSize;
          gridX = \<lfloor>normalizedX * of_int WAVE_RESOLUTION\<rfloor>;
          gridZ = \<lfloor>normalizedZ * of_int WAVE_RESOLUTION\<rfloor>;
          clampedX = max 0 (min (WAVE_RESOLUTION - 1) gridX);
          clampedZ = max 0 (min (WAVE_RESOLUTION - 1) gridZ);
          index = clampedZ * WAVE_RESOLUTION + clampedX
      in readFloat32Array (waveHeightMap oceanState) index)"

definition clampedCell :: "real \<Rightarrow> int" where
  \<comment> \<open>The grid index of a world coordinate, clamped to the grid: the first cell for a
      coordinate before the field, the last cell for one at or beyond its far edge, and the
      cell the coordinate falls into otherwise.\<close>
  "clampedCell c =
     (if c < - (WAVE_SIZE / 2) then 0
      else if WAVE_SIZE / 2 \<le> c then WAVE_RESOLUTION - 1
      else \<lfloor>(c + WAVE_SIZE / 2) / WAVE_SIZE * of_int WAVE_RESOLUTION\<rfloor>)"

definition waveCellHeight ::
  "real \<Rightarrow> real \<Rightarrow> vec3 \<Rightarrow> bool \<Rightarrow> real \<Rightarrow> int \<Rightarrow> int \<Rightarrow> real" where
  \<comment> \<open>The height that \<open>updateWaveHeightMap\<close> stores for the cell \<open>(x, z)\<close>. The arguments are
      \<open>time\<close> (from \<open>Date.now()\<close>) and the values the closure holds: \<open>speedKnots\<close>,
      \<open>windDirectionVector\<close>, \<open>isStorm\<close> and \<open>maxWaveHeight\<close>.\<close>
  "waveCellHeight time knots windDirectionVector isStorm maxWaveHeight x z =
     (let windFactor = knots * 0.01;
          stormFactor = (if isStorm then 1.5 else 1.0);
          worldX = (of_int x / of_int WAVE_RESOLUTION - 0.5) * WAVE_SIZE;
          worldZ = (of_int z / of_int WAVE_RESOLUTION - 0.5) * WAVE_SIZE;
          directionFactor = vx windDirectionVector * worldX + vz windDirectionVector * worldZ;
          height = 0 + sin (worldX * 0.1 + time * windFactor + directionFactor * 0.05) * 0.5;
          height = height + sin (worldZ * 0.15 + time * 0.7 * windFactor) * 0.3;
          height = height + sin ((worldX + worldZ) * 0.1 + time * 0.3) * 0.2;
          height = height + sin (worldX * 0.4 + worldZ * 0.4 + time * 2 * windFactor) * 0.1;
          height = (if isStorm then
                      (let h = height + sin (worldX * 0.6 + time * 3 * windFactor) * 0.2 * stormFactor;
                           h = h + cos (worldZ * 0.7 + time * 2.5 * windFactor) * 0.15 * stormFactor;
                           randomFactor = sin (worldX * 5 + worldZ * 5 + time * 4) * 0.1
                       in h + randomFactor * stormFactor)
                    else height)
      in height * maxWaveHeight)"

definition updateWaveHeightMap ::
  "real \<Rightarrow> real \<Rightarrow> vec3 \<Rightarrow> bool \<Rightarrow> real \<Rightarrow> OceanState \<Rightarrow> OceanState" where
  \<comment> \<open>The two loops over \<open>z\<close> and \<open>x\<close>; a write to a typed array changes no length.\<close>
  "updateWaveHeightMap time knots windDirectionVector isStorm maxWaveHeight oceanState =
     oceanState\<lparr>waveHeightMap :=
       foldl (\<lambda>m z.
         foldl (\<lambda>m x.
           m[nat (z * WAVE_RESOLUTION + x) :=
               waveCellHeight time knots windDirectionVector isStorm maxWaveHeight x z])
           m [0..WAVE_RESOLUTION - 1])
         (waveHeightMap oceanState) [0..WAVE_RESOLUTION - 1]\<rparr>"

section \<open>components/ships/Ship\<close>

record ShipState =
  velocity :: vec3
  angularVelocity :: vec3
  buoyancyPoints :: "vec3 list"
  shipRotation :: real
  sailAngle :: real
  previousSailAngle :: real
  isInitialized :: bool
  initializationTime :: real   \<comment> \<open>\<open>initializationTimeRef.current\<close>\<close>
  shipMounted :: bool          \<comment> \<open>\<open>shipRef.current\<close> is set\<close>
  position :: vec3             \<comment> \<open>\<open>shipRef.current.position\<close>\<close>
  rotation :: vec3             \<comment> \<open>\<open>shipRef.current.rotation\<close>\<close>
  hullY :: "real option"       \<comment> \<open>\<open>hullRef.current.position.y\<close>; \<open>None\<close> without the mesh\<close>

record ShipEnv =
  \<comment> \<open>What a frame reads from outside the component: its props, the controls, the wind
      store and the scene.\<close>
  shipClass :: ShipClass
  damage :: ShipDamage
  forward :: bool
  backward :: bool
  left :: bool
  right :: bool
  wind :: WindState
  ocean :: "(real \<Rightarrow> real \<Rightarrow> real) option"
    \<comment> \<open>\<open>scene.userData.ocean.getWaveHeight\<close>, when \<open>scene.userData.ocean\<close> exists\<close>

definition initBuoyancyPoints :: "ShipStats \<Rightarrow> vec3 list" where
  "initBuoyancyPoints stats =
     (let numPointsLength = max 4 \<lfloor>hullLength stats / 4\<rfloor>;
          numPointsWidth = max 2 \<lfloor>width stats / 3\<rfloor>;
          lengthScale = 3 / hullLength stats;
          widthScale = 1 / width stats
      in concat (map (\<lambda>z.
           map (\<lambda>x. vec ((of_int x / of_int (numPointsWidth - 1) - 0.5) * width stats * widthScale)
                         (- 0.4)
                         ((of_int z / of_int (numPointsLength - 1) - 0.5) * hullLength stats
                            * lengthScale))
               [0..<nat numPointsWidth]) [0..<nat numPointsLength]))"

definition newShipState :: "vec3 \<Rightarrow> vec3 \<Rightarrow> ShipState" where
  \<comment> \<open>The state at the first render, with the props \<open>position\<close> and \<open>rotation\<close>. The group
      is placed at \<open>[position[0], position[1] + 0.5, position[2]]\<close> and turned by
      \<open>[0, physicsState.shipRotation, 0]\<close>; the hull mesh is at \<open>[0, 0, 0]\<close>.\<close>
  "newShipState pos rot =
     \<lparr>velocity = vec 0 0 0, angularVelocity = vec 0 0 0, buoyancyPoints = [],
      shipRotation = vy rot, sailAngle = 0, previousSailAngle = 0,
      isInitialized = False, initializationTime = 0, shipMounted = True,
      position = vec (vx pos) (vy pos + 0.5) (vz pos), rotation = vec 0 (vy rot) 0,
      hullY = Some 0\<rparr>"

definition getWaveHeight :: "ShipEnv \<Rightarrow> real \<Rightarrow> real \<Rightarrow> real" where
  "getWaveHeight env x z = (case ocean env of Some g \<Rightarrow> g x z | None \<Rightarrow> 0)"

definition calculateBuoyancyForce :: "ShipEnv \<Rightarrow> vec3 \<Rightarrow> vec3 \<Rightarrow> Matrix4 \<Rightarrow> vec3" where
  "calculateBuoyancyForce env pointPosition worldPosition shipMatrix =
     (let worldPoint = applyMatrix4 pointPosition shipMatrix;
          waveHeight = getWaveHeight env (vx worldPoint) (vz worldPoint);
          depth = waveHeight - vy worldPoint
      in if depth < 0 then vec 0 0 0
         else (let buoyancyFactor = 1.0;
                   forceMagnitude =
                     depth * buoyancyFactor * (displacement (SHIP_STATS (shipClass env)) / 1000) * 9.8;
                   damageFactor = hullIntegrity (damage env)
               in vec 0 (forceMagnitude * damageFactor) 0))"

definition sinkDepth :: "ShipDamage \<Rightarrow> real" where
  "sinkDepth dmg = (1 - hullIntegrity dmg) * 0.4"

definition sailEfficiency :: "ShipDamage \<Rightarrow> real" where
  "sailEfficiency dmg = sailIntegrity dmg * mastIntegrity dmg"

definition maxAcceleration :: "ShipStats \<Rightarrow> real" where
  "maxAcceleration stats = 5 * (speed stats / 10)"

definition rotationSpeed :: "ShipStats \<Rightarrow> real \<Rightarrow> real" where
  "rotationSpeed stats delta = 1.5 * (maneuverability stats / 10) * delta"

definition baseDrag :: real where "baseDrag = 0.95"
definition realisticSpeedFactor :: real where "realisticSpeedFactor = 0.3"

definition angleBetweenWindAndShip :: "ShipEnv \<Rightarrow> ShipState \<Rightarrow> real" where
  "angleBetweenWindAndShip env s =
     getAngleBetweenWindAndShip (shipRotation s) (direction (wind env))"

definition forwardDir :: "ShipState \<Rightarrow> vec3" where
  "forwardDir s = applyAxisAngleY (vec 0 0 (- 1)) (shipRotation s)"

definition newShipRotation :: "ShipEnv \<Rightarrow> real \<Rightarrow> ShipState \<Rightarrow> real" where
  \<comment> \<open>The rudder: the two \<open>setPhysicsState\<close> calls, both computed from the heading of this
      frame; when both keys are down the second one stands.\<close>
  "newShipRotation env delta s =
     (let rudderFactor = rudderIntegrity (damage env);
          rs = rotationSpeed (SHIP_STATS (shipClass env)) delta;
          r1 = (if left env then shipRotation s + rs * rudderFactor else shipRotation s)
      in if right env then shipRotation s - rs * rudderFactor else r1)"

definition thrustVelocity :: "ShipEnv \<Rightarrow> real \<Rightarrow> ShipState \<Rightarrow> vec3" where
  \<comment> \<open>The velocity after the \<open>forward\<close> and \<open>backward\<close> inputs.\<close>
  "thrustVelocity env delta s =
     (let stats = SHIP_STATS (shipClass env);
          pointOfSailMultiplier = getPointOfSailMultiplier (angleBetweenWindAndShip env s);
          windVector = windDirectionToVector (direction (wind env));
          windForce = speedKnots (wind env) * 0.01;
          finalAcceleration = maxAcceleration stats * delta * pointOfSailMultiplier
                                * sailEfficiency (damage env) * realisticSpeedFactor;
          v1 = (if forward env then
                  (let windEffect = windForce * pointOfSailMultiplier
                                      * sailEfficiency (damage env) * realisticSpeedFactor;
                       v = add (velocity s) (multiplyScalar (forwardDir s) finalAcceleration);
                       windDrift = projectOnPlane windVector (forwardDir s);
                       lateralDriftFactor = 0.2 * (10 / cargoCapacity stats) * realisticSpeedFactor
                   in add v (multiplyScalar windDrift (windEffect * lateralDriftFactor)))
                else velocity s)
      in if backward env then
           add v1 (multiplyScalar (forwardDir s)
                     (- maxAcceleration stats * 0.2 * delta * realisticSpeedFactor))
         else v1)"

definition finalDrag :: "ShipEnv \<Rightarrow> ShipState \<Rightarrow> real" where
  "finalDrag env s =
     (let a = angleBetweenWindAndShip env s;
          headwindFactor = (if a < pi / 2 then 0.98 + (0.04 * (1 - a / (pi / 2))) else 0.98)
      in min (baseDrag * headwindFactor) 0.99)"

definition shipMatrix :: "ShipState \<Rightarrow> Matrix4" where
  "shipMatrix s = \<lparr>rotationY = shipRotation s, translation = position s\<rparr>"

definition buoyancyStep :: "ShipEnv \<Rightarrow> ShipState \<Rightarrow> vec3 \<times> vec3 \<Rightarrow> vec3 \<Rightarrow> vec3 \<times> vec3" where
  \<comment> \<open>One round of \<open>buoyancyPoints.forEach\<close> on \<open>(totalBuoyancyForce, totalTorque)\<close>.\<close>
  "buoyancyStep env s acc point =
     (let force = calculateBuoyancyForce env point (position s) (shipMatrix s)
      in if lengthSq force > 0 then
           (let worldPoint = applyMatrix4 point (shipMatrix s);
                relPos = sub worldPoint (position s);
                torque = crossVectors relPos force
            in (add (fst acc) force, add (snd acc) torque))
         else acc)"

definition buoyancyTotals :: "ShipEnv \<Rightarrow> ShipState \<Rightarrow> vec3 \<times> vec3" where
  "buoyancyTotals env s = foldl (buoyancyStep env s) (vec 0 0 0, vec 0 0 0) (buoyancyPoints s)"

definition maxSpeed :: "ShipEnv \<Rightarrow> ShipState \<Rightarrow> real" where
  "maxSpeed env s =
     (speed (SHIP_STATS (shipClass env)) / 10)
       * (1 + getPointOfSailMultiplier (angleBetweenWindAndShip env s) * 0.5)
       * realisticSpeedFactor"

definition capHorizontal :: "real \<Rightarrow> vec3 \<Rightarrow> vec3" where
  "capHorizontal cap v =
     (let horizontalVelocity = vec (vx v) 0 (vz v)
      in if length' horizontalVelocity > cap then
           (let h = multiplyScalar (normalize horizontalVelocity) cap
            in v\<lparr>vx := vx h, vz := vz h\<rparr>)
         else v)"

definition beforeCap :: "ShipEnv \<Rightarrow> real \<Rightarrow> ShipState \<Rightarrow> vec3" where
  \<comment> \<open>The working velocity after drag, buoyancy and gravity, before the speed cap.\<close>
  "beforeCap env delta s =
     (let v = multiplyScalar (thrustVelocity env delta s) (finalDrag env s);
          buoyancyFactor = 0.01;
          v = add v (multiplyScalar (fst (buoyancyTotals env s)) (buoyancyFactor * delta))
      in v\<lparr>vy := vy v - 0.05 * delta\<rparr>)"

definition newVelocity :: "ShipEnv \<Rightarrow> real \<Rightarrow> ShipState \<Rightarrow> vec3" where
  "newVelocity env delta s = capHorizontal (maxSpeed env s) (beforeCap env delta s)"

definition newAngularVelocity :: "ShipEnv \<Rightarrow> real \<Rightarrow> ShipState \<Rightarrow> vec3" where
  "newAngularVelocity env delta s =
     (let torqueFactor = 0.0005;
          w = add (angularVelocity s)
                (multiplyScalar (snd (buoyancyTotals env s)) (torqueFactor * delta))
      in multiplyScalar w 0.95)"

definition physicsFrame :: "ShipEnv \<Rightarrow> real \<Rightarrow> ShipState \<Rightarrow> ShipState" where
  \<comment> \<open>The part of the \<open>useFrame\<close> callback after the stabilization block.\<close>
  "physicsFrame env delta s =
     (let m = shipMatrix s;
          v = newVelocity env delta s;
          w = newAngularVelocity env delta s;
          bowPos = applyMatrix4 (vec 0 0 (- 1.5)) m;
          sternPos = applyMatrix4 (vec 0 0 1.5) m;
          bowWaveHeight = getWaveHeight env (vx bowPos) (vz bowPos);
          sternWaveHeight = getWaveHeight env (vx sternPos) (vz sternPos);
          pitchFromWaves = atan2_pos (sternWaveHeight - bowWaveHeight) 3 * 0.5;
          portPos = applyMatrix4 (vec (- 0.5) 0 0) m;
          starboardPos = applyMatrix4 (vec 0.5 0 0) m;
          portWaveHeight = getWaveHeight env (vx portPos) (vz portPos);
          starboardWaveHeight = getWaveHeight env (vx starboardPos) (vz starboardPos);
          rollFromWaves = atan2_pos (starboardWaveHeight - portWaveHeight) 1 * 0.5;
          blendFactor = 0.8;
          targetPitch = vx w * (1 - blendFactor) + pitchFromWaves * blendFactor;
          targetRoll = vz w * (1 - blendFactor) + rollFromWaves * blendFactor
      in s\<lparr>position := add (position s) v,
            rotation := vec targetPitch (shipRotation s) targetRoll,
            hullY := map_option (\<lambda>_. - sinkDepth (damage env)) (hullY s),
            shipRotation := newShipRotation env delta s,
            velocity := v,
            angularVelocity := w\<rparr>)"

definition useFrame ::
  "(real \<Rightarrow> real \<Rightarrow> real) \<Rightarrow> ShipEnv \<Rightarrow> real \<Rightarrow> ShipState \<Rightarrow> ShipState" where
  \<comment> \<open>The first argument is the addition of \<open>initializationTimeRef.current += delta\<close>, the
      rounded sum of two doubles; \<open>(+)\<close> is the exact sum.\<close>
  "useFrame clockAdd env delta s =
     (if \<not> shipMounted s \<or> buoyancyPoints s = [] then s
      else if \<not> isInitialized s then
        (let s1 = s\<lparr>initializationTime := clockAdd (initializationTime s) delta\<rparr>
         in case ocean env of
              Some g \<Rightarrow>
                (let h = g (vx (position s1)) (vz (position s1));
                     waterHeight = (if h = 0 then 0 else h);
                     stats = SHIP_STATS (shipClass env);
                     s2 = s1\<lparr>position := (position s1)\<lparr>vy := waterHeight - 0.3 * draft stats / 10\<rparr>\<rparr>
                 in if initializationTime s2 > 0.5 then s2\<lparr>isInitialized := True\<rparr> else s2)
            | None \<Rightarrow> physicsFrame env delta s1)
      else physicsFrame env delta s)"

fun run :: "(real \<Rightarrow> real \<Rightarrow> real) \<Rightarrow> (ShipEnv \<times> real) list \<Rightarrow> ShipState \<Rightarrow> ShipState" where
  \<comment> \<open>A run of frames, each with the inputs it reads and its own \<open>delta\<close>.\<close>
  "run clockAdd [] s = s"
| "run clockAdd (f # fs) s = run clockAdd fs (useFrame clockAdd (fst f) (snd f) s)"

fun frames ::
  "(real \<Rightarrow> real \<Rightarrow> real) \<Rightarrow> ShipEnv \<Rightarrow> real \<Rightarrow> nat \<Rightarrow> ShipState \<Rightarrow> ShipState" where
  \<comment> \<open>\<open>n\<close> frames in a row with the same inputs and the same \<open>delta\<close>.\<close>
  "frames clockAdd env delta 0 s = s"
| "frames clockAdd env delta (Suc n) s = frames clockAdd env delta n (useFrame clockAdd env delta s)"

fun clockExceeded :: "(real \<Rightarrow> real \<Rightarrow> real) \<Rightarrow> real \<Rightarrow> real list \<Rightarrow> bool" where
  \<comment> \<open>The settling clock, at \<open>c\<close> and advanced by the frame times one after the other, has
      been found above 0.5 by the test \<open>initializationTimeRef.current > 0.5\<close>.\<close>
  "clockExceeded clockAdd c [] = False"
| "clockExceeded clockAdd c (d # ds) = (0.5 < clockAdd c d \<or> clockExceeded clockAdd (clockAdd c d) ds)"

definition playerShip :: "ShipClass \<Rightarrow> ShipState" where
  \<comment> \<open>The ship of \<open>GameWorld\<close> (\<open>position={[0, 1, 0]}\<close>, \<open>rotation={[0, 0, 0]}\<close>) once the
      effect that creates the buoyancy points has run.\<close>
  "playerShip c =
     (newShipState (vec 0 1 0) (vec 0 0 0))\<lparr>buoyancyPoints := initBuoyancyPoints (SHIP_STATS c)\<rparr>"

definition initialEnv :: ShipEnv where
  \<comment> \<open>The inputs at their initial values: the Frigate selected in \<open>App\<close>, no damage, no key
      down, the initial state of the wind store, and a scene without ocean.\<close>
  "initialEnv =
     \<lparr>shipClass = Frigate, damage = createDefaultShipDamage, forward = False,
      backward = False, left = False, right = False, wind = initialState, ocean = None\<rparr>"

section \<open>Horizontal speed\<close>

definition horizontalSpeed :: "vec3 \<Rightarrow> real" where
  \<comment> \<open>\<open>horizontalVelocity.length()\<close> of the speed cap.\<close>
  "horizontalSpeed v = length' (vec (vx v) 0 (vz v))"

definition drive :: "ShipEnv \<Rightarrow> real \<Rightarrow> ShipState \<Rightarrow> vec3" where
  \<comment> \<open>What the \<open>forward\<close> input adds to the velocity in one frame at sail efficiency 1:
      the thrust along the heading and the wind drift.\<close>
  "drive env delta s =
     (let stats = SHIP_STATS (shipClass env);
          pointOfSailMultiplier = getPointOfSailMultiplier (angleBetweenWindAndShip env s);
          windVector = windDirectionToVector (direction (wind env));
          windForce = speedKnots (wind env) * 0.01;
          windDrift = projectOnPlane windVector (forwardDir s);
          lateralDriftFactor = 0.2 * (10 / cargoCapacity stats) * realisticSpeedFactor
      in add (multiplyScalar (forwardDir s)
                (maxAcceleration stats * delta * pointOfSailMultiplier * realisticSpeedFactor))
             (multiplyScalar windDrift
                (windForce * pointOfSailMultiplier * realisticSpeedFactor * lateralDriftFactor)))"

section \<open>Terminal horizontal speed\<close>

definition planar :: "vec3 \<Rightarrow> complex" where
  \<comment> \<open>The horizontal part \<open>(x, z)\<close> of a vector, as a point of the plane.\<close>
  "planar v = Complex (vx v) (vz v)"

definition capDisc :: "real \<Rightarrow> complex \<Rightarrow> complex" where
  \<comment> \<open>The speed cap on a point of the plane: longer than \<open>M\<close>, it is scaled to length
      \<open>M\<close>.\<close>
  "capDisc M q = (if M < cmod q then of_real (M / cmod q) * q else q)"

definition speedAfter ::
  "(real \<Rightarrow> real \<Rightarrow> real) \<Rightarrow> ShipEnv \<Rightarrow> real \<Rightarrow> ShipState \<Rightarrow> nat \<Rightarrow> real" where
  \<comment> \<open>The horizontal speed after \<open>n\<close> frames with the same inputs and the same \<open>delta\<close>.\<close>
  "speedAfter clockAdd env delta s n = horizontalSpeed (velocity (frames clockAdd env delta n s))"

definition terminalSpeed :: "ShipEnv \<Rightarrow> real \<Rightarrow> ShipState \<Rightarrow> real" where
  \<comment> \<open>The smaller of the speed cap and \<open>drag / (1 - drag)\<close> times the length of what the
      \<open>forward\<close> input adds in one frame.\<close>
  "terminalSpeed env delta s =
     min (maxSpeed env s)
         (finalDrag env s / (1 - finalDrag env s)
            * (\<bar>sailEfficiency (damage env)\<bar> * horizontalSpeed (drive env delta s)))"

abbreviation reachEnv :: ShipEnv where
  \<comment> \<open>The Frigate on a flat sea with the forward key down and the wind from 105 degrees.\<close>
  "reachEnv \<equiv> initialEnv\<lparr>ocean := Some (\<lambda>x z. 0), forward := True,
                           wind := setDirection (7 * pi / 12) initialState\<rparr>"

abbreviation settledShip :: ShipState where
  \<comment> \<open>The ship of \<open>GameWorld\<close> after three frames of 0.25 s, which end its settling phase.\<close>
  "settledShip \<equiv> frames (+) reachEnv (1 / 4) 3 (playerShip Frigate)"

section \<open>Wind store: speed and strength\<close>

lemma setStrength_speed:
  "speedKnots (setStrength s state) = getWindSpeed (strength (setStrength s state))"
  by (simp add: setStrength_def)

lemma updateWind_speed:
  "speedKnots state = getWindSpeed (strength state) \<Longrightarrow>
   speedKnots (updateWind delta dr state) = getWindSpeed (strength (updateWind delta dr state))"
  by (simp add: updateWind_def Let_def)

text \<open>
  C1. Every operation that sets the wind strength leaves
  \<open>speedKnots = getWindSpeed strength\<close>. \<open>setStrength\<close> and \<open>updateWind\<close> do
  (\<open>setStrength_speed\<close>, \<open>updateWind_speed\<close>); \<open>randomizeWind\<close> calls
  \<open>getRandomWindStrength()\<close> once for \<open>strength\<close> and once more for \<open>speedKnots\<close>,
  so with the draws 0 and 0.999 the state is Calm with the speed of a Hurricane.
\<close>
theorem C1_randomizeWind_speed_mismatch:
  "strength (randomizeWind \<lparr>rzDirection = 0, rzStrength = 0, rzSpeed = 0.999,
                            rzFluctuation = 0\<rparr> initialState) = Calm
   \<and> speedKnots (randomizeWind \<lparr>rzDirection = 0, rzStrength = 0, rzSpeed = 0.999,
                                rzFluctuation = 0\<rparr> initialState) = 75
   \<and> getWindSpeed Calm = 2"
  by (simp add: randomizeWind_def getRandomWindStrength_def)

section \<open>Wind store: wrapping the direction\<close>

lemma js_rem_small: "\<bar>a\<bar> < b \<Longrightarrow> js_rem a b = a"
proof -
  assume a: "\<bar>a\<bar> < b"
  then have b: "0 < b" by simp
  have q: "- 1 < a / b" "a / b < 1" using a b by (simp_all add: field_simps)
  show ?thesis
  proof (cases "0 \<le> a / b")
    case True
    then have "\<lfloor>a / b\<rfloor> = 0" using q by (simp add: floor_eq_iff)
    then show ?thesis using True by (simp add: js_rem_def)
  next
    case False
    then have "\<lceil>a / b\<rceil> = 0" using q by (simp add: ceiling_eq_iff)
    then show ?thesis using False by (simp add: js_rem_def)
  qed
qed

text \<open>
  C2. After an \<open>updateWind\<close> call that perturbs the direction, the stored direction lies in
  \<open>[0, 2\<pi>)\<close>. The code wraps with \<open>%\<close>, whose result keeps the sign of the dividend:
  from the initial state (direction 0, fluctuation 0.2) with \<open>delta = 1\<close>, a gate draw of 0
  and a direction draw of 0, the change is \<open>-0.05 * 0.2\<close> and the stored direction is
  \<open>-0.01\<close>.
\<close>
theorem C2_updateWind_negative_direction:
  "direction (updateWind 1 \<lparr>gateDraw = 0, directionDraw = 0, strengthGate = 0.5,
                            stepDraw = 0, resampleDraw = 0\<rparr> initialState) = - 0.01"
proof -
  have "js_rem (- 0.01) (pi * 2) = - 0.01"
    using pi_ge_two by (intro js_rem_small) simp_all
  then show ?thesis
    by (simp add: updateWind_def initialState_def randomInRange_def Let_def)
qed

section \<open>Angle between heading and wind\<close>

lemma getAngleBetweenWindAndShip_sym:
  "getAngleBetweenWindAndShip a b = getAngleBetweenWindAndShip b a"
  by (simp add: getAngleBetweenWindAndShip_def Let_def abs_minus_commute)

text \<open>
  C4. \<open>getAngleBetweenWindAndShip\<close> is symmetric and its value lies in \<open>[0, \<pi>]\<close>.
  It is symmetric (\<open>getAngleBetweenWindAndShip_sym\<close>). The two \<open>%\<close> leave a negative
  heading negative, so the difference of the reduced angles reaches beyond \<open>2\<pi>\<close>: for the
  heading \<open>-3\<pi>/2\<close> and the wind direction \<open>3\<pi>/2\<close> the difference is \<open>3\<pi>\<close> and
  the value returned is \<open>2\<pi> - 3\<pi> = -\<pi>\<close>.
\<close>
theorem C4_angle_negative:
  "getAngleBetweenWindAndShip (- (3 * pi / 2)) (3 * pi / 2) = - pi"
proof -
  have 1: "js_rem (- (3 * pi / 2)) (2 * pi) = - (3 * pi / 2)"
    by (intro js_rem_small) simp_all
  have 2: "js_rem (3 * pi / 2) (2 * pi) = 3 * pi / 2"
    by (intro js_rem_small) simp_all
  show ?thesis
    by (simp add: getAngleBetweenWindAndShip_def 1 2 Let_def)
qed

section \<open>Wind store: the strength step\<close>

lemma stepStrength_cases:
  "stepStrength dr cur =
     (if stepDraw dr < 0.35 \<and> cur \<noteq> Calm then clampedDown cur
      else if stepDraw dr < 0.7 \<and> cur \<noteq> Hurricane then clampedUp cur
      else getRandomWindStrength (resampleDraw dr))"
  by (cases cur) (simp_all add: stepStrength_def strengths_def Let_def)

text \<open>
  C5, as the claim states it, fails at the low end of the scale: at Calm a draw below 0.35
  fails the guard \<open>currentIndex > 0\<close> and falls into the second branch, which moves the
  strength one category up, to LightAir, instead of leaving it at Calm.
\<close>
theorem C5_no_clamp_counterexample:
  "strength (setStrength Calm initialState) = Calm
   \<and> strength (updateWind 1 \<lparr>gateDraw = 0, directionDraw = 0.5, strengthGate = 0,
                           stepDraw = 0.2, resampleDraw = 0\<rparr>
               (setStrength Calm initialState)) = LightAir"
  by (simp add: updateWind_def setStrength_def initialState_def stepStrength_cases
      getRandomWindStrength_def Let_def)

text \<open>
  C5, amended. When \<open>updateWind\<close> takes the strength step, a draw below 0.35 moves the
  strength one category down unless it is Calm; at Calm such a draw moves it one category
  up; a draw in \<open>[0.35, 0.7)\<close> moves it one category up when it is below Hurricane; a
  draw of 0.7 or more resamples it with \<open>getRandomWindStrength\<close>.
\<close>
theorem C5_strength_step:
  assumes "gateDraw dr < fluctuation state * delta * 0.5" and "strengthGate dr < 0.01"
    and "strength state \<noteq> Hurricane \<or> stepDraw dr < 0.35 \<or> 0.7 \<le> stepDraw dr"
  shows "strength (updateWind delta dr state) =
           (if stepDraw dr < 0.35 \<and> strength state \<noteq> Calm then clampedDown (strength state)
            else if stepDraw dr < 0.7 then clampedUp (strength state)
            else getRandomWindStrength (resampleDraw dr))"
  using assms by (auto simp add: updateWind_def Let_def stepStrength_cases)

theorem C5_strength_step_witness:
  "strength (updateWind 1 \<lparr>gateDraw = 0, directionDraw = 0.5, strengthGate = 0,
                           stepDraw = 0.2, resampleDraw = 0\<rparr> initialState) = GentleBreeze
   \<and> strength (updateWind 1 \<lparr>gateDraw = 0, directionDraw = 0.5, strengthGate = 0,
                             stepDraw = 0.5, resampleDraw = 0\<rparr>
                 (setStrength Calm initialState)) = LightAir"
  using C5_strength_step [of "\<lparr>gateDraw = 0, directionDraw = 0.5, strengthGate = 0,
                              stepDraw = 0.2, resampleDraw = 0\<rparr>" initialState 1]
    C5_strength_step [of "\<lparr>gateDraw = 0, directionDraw = 0.5, strengthGate = 0,
                              stepDraw = 0.5, resampleDraw = 0\<rparr>" "setStrength Calm initialState" 1]
  by (simp add: initialState_def setStrength_def)


section \<open>No clamping of supplied scalars\<close>

text \<open>
  C3, as the claim states it, fails: the setters store what they are given and
  \<open>sailEfficiency\<close> multiplies the damage components as they are. A fluctuation of 5 is
  stored as 5, a direction of 100 as 100, and sail and mast integrities of 2 and 3 give a
  sail efficiency of 6.
\<close>
theorem C3_no_clamp_counterexample:
  "fluctuation (setFluctuation 5 initialState) = 5
   \<and> direction (setDirection 100 initialState) = 100
   \<and> sailEfficiency \<lparr>hullIntegrity = 1, sailIntegrity = 2, mastIntegrity = 3,
                       rudderIntegrity = 1\<rparr> = 6"
  by (simp add: setFluctuation_def setDirection_def sailEfficiency_def)

text \<open>
  C3, amended. The core does not clamp the scalars it is given, whatever their value:
  \<open>setFluctuation\<close> and \<open>setDirection\<close> store their argument unchanged, \<open>sailEfficiency\<close>
  is the product of the sail and mast integrities as supplied, the buoyancy force at a
  submerged point is proportional to the hull integrity as supplied, and the turn of a
  frame is \<open>rotationSpeed\<close> times the rudder integrity as supplied.
\<close>
theorem C3_values_used_as_supplied:
  "fluctuation (setFluctuation f state) = f
   \<and> direction (setDirection d state) = d
   \<and> sailEfficiency dmg = sailIntegrity dmg * mastIntegrity dmg
   \<and> calculateBuoyancyForce env p w m =
       (if getWaveHeight env (vx (applyMatrix4 p m)) (vz (applyMatrix4 p m))
             - vy (applyMatrix4 p m) < 0
        then vec 0 0 0
        else vec 0 ((getWaveHeight env (vx (applyMatrix4 p m)) (vz (applyMatrix4 p m))
                       - vy (applyMatrix4 p m))
                    * (displacement (SHIP_STATS (shipClass env)) / 1000) * 9.8
                    * hullIntegrity (damage env)) 0)
   \<and> newShipRotation env delta s =
       (if right env
        then shipRotation s - rotationSpeed (SHIP_STATS (shipClass env)) delta
                                * rudderIntegrity (damage env)
        else if left env
        then shipRotation s + rotationSpeed (SHIP_STATS (shipClass env)) delta
                                * rudderIntegrity (damage env)
        else shipRotation s)"
  by (simp add: setFluctuation_def setDirection_def sailEfficiency_def
      calculateBuoyancyForce_def newShipRotation_def Let_def)

theorem C3_values_used_as_supplied_witness:
  "fluctuation (setFluctuation (- 3) initialState) = - 3
   \<and> direction (setDirection (- 100) initialState) = - 100
   \<and> sailEfficiency (createDefaultShipDamage\<lparr>sailIntegrity := 4, mastIntegrity := - 1\<rparr>) = - 4
   \<and> calculateBuoyancyForce
        (initialEnv\<lparr>damage := createDefaultShipDamage\<lparr>hullIntegrity := 10\<rparr>\<rparr>)
        (vec 0 (- 1) 0) (vec 0 0 0) \<lparr>rotationY = 0, translation = vec 0 0 0\<rparr>
       = vec 0 68.6 0
   \<and> newShipRotation
        (initialEnv\<lparr>left := True, damage := createDefaultShipDamage\<lparr>rudderIntegrity := 10\<rparr>\<rparr>)
        1 (playerShip Frigate) = 10.5"
  using C3_values_used_as_supplied [of "- 3" initialState "- 100"
      "createDefaultShipDamage\<lparr>sailIntegrity := 4, mastIntegrity := - 1\<rparr>"
      "initialEnv\<lparr>damage := createDefaultShipDamage\<lparr>hullIntegrity := 10\<rparr>\<rparr>"
      "vec 0 (- 1) 0" "vec 0 0 0" "\<lparr>rotationY = 0, translation = vec 0 0 0\<rparr>"]
    C3_values_used_as_supplied [of 0 initialState 0 createDefaultShipDamage
      "initialEnv\<lparr>left := True, damage := createDefaultShipDamage\<lparr>rudderIntegrity := 10\<rparr>\<rparr>"
      "vec 0 0 0" "vec 0 0 0" "\<lparr>rotationY = 0, translation = vec 0 0 0\<rparr>"
      1 "playerShip Frigate"]
  by (simp add: createDefaultShipDamage_def initialEnv_def getWaveHeight_def applyMatrix4_def
      applyAxisAngleY_def add_def vec_def rotationSpeed_def playerShip_def newShipState_def)


section \<open>Wave height queries\<close>

lemma length_foldl_update:
  "(\<And>m a. length (f m a) = length m) \<Longrightarrow> length (foldl f m xs) = length m"
  by (induction xs arbitrary: m) simp_all

lemma length_updateWaveHeightMap:
  "length (waveHeightMap (updateWaveHeightMap time knots w isStorm maxWaveHeight oceanState))
     = length (waveHeightMap oceanState)"
  by (simp add: updateWaveHeightMap_def length_foldl_update)

lemma clampedCell_inside:
  fixes c :: real
  assumes "- 50 \<le> c" "c < 50"
  shows "0 \<le> \<lfloor>(c + 100 / 2) / 100 * of_int 40\<rfloor>" "\<lfloor>(c + 100 / 2) / 100 * of_int 40\<rfloor> \<le> (39::int)"
proof -
  have "0 \<le> (c + 100 / 2) / 100 * of_int 40" using assms by simp
  then show "0 \<le> \<lfloor>(c + 100 / 2) / 100 * of_int 40\<rfloor>" by simp
  have "(c + 100 / 2) / 100 * of_int 40 < 40" using assms by simp
  then have "\<lfloor>(c + 100 / 2) / 100 * of_int 40\<rfloor> < (40::int)" by (simp add: floor_less_iff)
  then show "\<lfloor>(c + 100 / 2) / 100 * of_int 40\<rfloor> \<le> (39::int)" by simp
qed

lemma clampedCell_range: "0 \<le> clampedCell c" "clampedCell c \<le> WAVE_RESOLUTION - 1"
  using clampedCell_inside [of c]
  by (auto simp: clampedCell_def WAVE_SIZE_def WAVE_RESOLUTION_def)

lemma clamp_floor:
  "max 0 (min (WAVE_RESOLUTION - 1)
     \<lfloor>(c + WAVE_SIZE / 2) / WAVE_SIZE * of_int WAVE_RESOLUTION\<rfloor>) = clampedCell c"
proof -
  let ?f = "\<lfloor>(c + 100 / 2) / 100 * of_int 40\<rfloor> :: int"
  consider "c < - 50" | "50 \<le> c" | "- 50 \<le> c" "c < 50" by linarith
  then have "max 0 (min 39 ?f) = (if c < - 50 then 0 else if 50 \<le> c then 39 else ?f)"
  proof cases
    case 1
    then have "(c + 100 / 2) / 100 * of_int 40 < 0" by simp
    then have "?f < 0" by (simp add: floor_less_iff)
    then show ?thesis using 1 by simp
  next
    case 2
    then have "40 \<le> (c + 100 / 2) / 100 * of_int 40" by simp
    then have "40 \<le> ?f" by (simp add: le_floor_iff)
    then show ?thesis using 2 by simp
  next
    case 3
    then show ?thesis using clampedCell_inside [of c] by simp
  qed
  then show ?thesis by (simp add: clampedCell_def WAVE_SIZE_def WAVE_RESOLUTION_def)
qed

text \<open>
  C7. For all real coordinates the height query of the ocean returns the stored value of
  the cell at the clamped grid indices: the index along each axis is the cell the
  coordinate falls into, the first cell for a coordinate before the field and the last cell
  for one beyond it, so the read is always inside the wave height map and never
  \<open>undefined\<close>; and the ship's height query returns 0 while the scene has no ocean. The
  map keeps the length it is created with, \<open>WAVE_RESOLUTION * WAVE_RESOLUTION\<close>
  (\<open>length_updateWaveHeightMap\<close>).
\<close>
theorem C7_getWaveHeight_defined:
  assumes "length (waveHeightMap oceanState) = nat (WAVE_RESOLUTION * WAVE_RESOLUTION)"
    and "ocean env = None"
  shows "ocean_getWaveHeight oceanState x z =
           Some (waveHeightMap oceanState ! nat (clampedCell z * WAVE_RESOLUTION + clampedCell x))
         \<and> 0 \<le> clampedCell z * WAVE_RESOLUTION + clampedCell x
         \<and> clampedCell z * WAVE_RESOLUTION + clampedCell x < WAVE_RESOLUTION * WAVE_RESOLUTION
         \<and> getWaveHeight env x' z' = 0"
proof -
  let ?i = "clampedCell z * WAVE_RESOLUTION + clampedCell x"
  have r: "0 \<le> clampedCell x" "clampedCell x \<le> 39" "0 \<le> clampedCell z" "clampedCell z \<le> 39"
    using clampedCell_range [of x] clampedCell_range [of z] by (simp_all add: WAVE_RESOLUTION_def)
  have b: "0 \<le> ?i" "?i < WAVE_RESOLUTION * WAVE_RESOLUTION"
    using r by (simp_all add: WAVE_RESOLUTION_def)
  have "ocean_getWaveHeight oceanState x z = readFloat32Array (waveHeightMap oceanState) ?i"
    unfolding ocean_getWaveHeight_def Let_def clamp_floor ..
  also have "\<dots> = Some (waveHeightMap oceanState ! nat ?i)"
    using b assms(1) by (simp add: readFloat32Array_def)
  finally have 1: "ocean_getWaveHeight oceanState x z = Some (waveHeightMap oceanState ! nat ?i)" .
  have 2: "getWaveHeight env x' z' = 0" using assms(2) by (simp add: getWaveHeight_def)
  show ?thesis using 1 2 b by simp
qed

theorem C7_getWaveHeight_defined_witness:
  "ocean_getWaveHeight \<lparr>waveHeightMap = map real [0..<1600]\<rparr> 1000000 (- 1000000) = Some 39
   \<and> ocean_getWaveHeight \<lparr>waveHeightMap = map real [0..<1600]\<rparr> 1 (- 26) = Some 380
   \<and> getWaveHeight initialEnv 3 4 = 0"
proof -
  let ?o = "\<lparr>waveHeightMap = map real [0..<1600]\<rparr>"
  have l: "length (waveHeightMap ?o) = nat (WAVE_RESOLUTION * WAVE_RESOLUTION)"
    by (simp add: WAVE_RESOLUTION_def)
  have e: "ocean initialEnv = None" by (simp add: initialEnv_def)
  have c: "clampedCell 1000000 = 39" "clampedCell (- 1000000) = 0"
    "clampedCell 1 = 20" "clampedCell (- 26) = 9"
    by (simp_all add: clampedCell_def WAVE_SIZE_def WAVE_RESOLUTION_def)
  show ?thesis
    using C7_getWaveHeight_defined [OF l e, of 1000000 "- 1000000" 3 4] C7_getWaveHeight_defined [OF l e, of 1 "- 26" 3 4]
    by (simp add: c WAVE_RESOLUTION_def)
qed


section \<open>Hull integrity\<close>

text \<open>
  C9. With \<open>hullIntegrity = 0\<close> the buoyancy force at every sample point is the zero vector,
  submerged or not, and the sink depth with \<open>hullIntegrity = 0\<close> is strictly greater than
  with \<open>hullIntegrity = 1\<close>.
\<close>
theorem C9_hull_zero:
  assumes "hullIntegrity (damage env) = 0"
    and "hullIntegrity d0 = 0" and "hullIntegrity d1 = 1"
  shows "calculateBuoyancyForce env pointPosition worldPosition m = vec 0 0 0
         \<and> sinkDepth d0 > sinkDepth d1"
  using assms by (simp add: calculateBuoyancyForce_def sinkDepth_def Let_def)

theorem C9_hull_zero_witness:
  "getWaveHeight (initialEnv\<lparr>ocean := Some (\<lambda>x z. 2),
                              damage := createDefaultShipDamage\<lparr>hullIntegrity := 0\<rparr>\<rparr>) 0 0
     - vy (applyMatrix4 (vec 0 (- 0.4) 0) \<lparr>rotationY = 0, translation = vec 0 0 0\<rparr>) = 2.4
   \<and> calculateBuoyancyForce
       (initialEnv\<lparr>ocean := Some (\<lambda>x z. 2),
                    damage := createDefaultShipDamage\<lparr>hullIntegrity := 0\<rparr>\<rparr>)
       (vec 0 (- 0.4) 0) (vec 0 0 0) \<lparr>rotationY = 0, translation = vec 0 0 0\<rparr> = vec 0 0 0
   \<and> sinkDepth (createDefaultShipDamage\<lparr>hullIntegrity := 0\<rparr>)
       > sinkDepth createDefaultShipDamage"
  using C9_hull_zero [of "initialEnv\<lparr>ocean := Some (\<lambda>x z. 2),
                              damage := createDefaultShipDamage\<lparr>hullIntegrity := 0\<rparr>\<rparr>"
      "createDefaultShipDamage\<lparr>hullIntegrity := 0\<rparr>" createDefaultShipDamage
      "vec 0 (- 0.4) 0" "vec 0 0 0" "\<lparr>rotationY = 0, translation = vec 0 0 0\<rparr>"]
  by (simp add: createDefaultShipDamage_def getWaveHeight_def applyMatrix4_def
      applyAxisAngleY_def add_def vec_def)

section \<open>Frames of the ship\<close>

lemma physicsFrame_fields:
  "shipMounted (physicsFrame env delta s) = shipMounted s"
  "buoyancyPoints (physicsFrame env delta s) = buoyancyPoints s"
  "isInitialized (physicsFrame env delta s) = isInitialized s"
  "initializationTime (physicsFrame env delta s) = initializationTime s"
  "shipRotation (physicsFrame env delta s) = newShipRotation env delta s"
  "velocity (physicsFrame env delta s) = newVelocity env delta s"
  by (simp_all add: physicsFrame_def Let_def)

lemma useFrame_active:
  "shipMounted s \<Longrightarrow> buoyancyPoints s \<noteq> [] \<Longrightarrow> isInitialized s \<Longrightarrow>
   useFrame clockAdd env delta s = physicsFrame env delta s"
  by (simp add: useFrame_def)

lemma frames_Suc_right:
  "frames clockAdd env delta (Suc n) s = useFrame clockAdd env delta (frames clockAdd env delta n s)"
  by (induction n arbitrary: s) simp_all

lemma maneuverability_pos: "0 < maneuverability (SHIP_STATS c)"
  by (cases c) simp_all

lemma initBuoyancyPoints_nonempty: "initBuoyancyPoints stats \<noteq> []"
proof -
  have l: "[0..<nat (max 4 \<lfloor>hullLength stats / 4\<rfloor>)] \<noteq> []" by simp
  have w: "[0..<nat (max 2 \<lfloor>width stats / 3\<rfloor>)] \<noteq> []" by simp
  show ?thesis
    using l w by (cases "[0..<nat (max 4 \<lfloor>hullLength stats / 4\<rfloor>)]")
      (simp_all add: initBuoyancyPoints_def Let_def)
qed

lemma initBuoyancyPoints_vy: "p \<in> set (initBuoyancyPoints stats) \<Longrightarrow> vy p = - 0.4"
  by (auto simp: initBuoyancyPoints_def Let_def vec_def)

lemma playerShip_fields:
  "shipMounted (playerShip c)" "buoyancyPoints (playerShip c) \<noteq> []"
  "\<not> isInitialized (playerShip c)" "initializationTime (playerShip c) = 0"
  "velocity (playerShip c) = vec 0 0 0" "shipRotation (playerShip c) = 0"
  "position (playerShip c) = vec 0 1.5 0"
  by (simp_all add: playerShip_def newShipState_def initBuoyancyPoints_nonempty vec_def)

lemma newVelocity_vy:
  "vy (newVelocity env delta s) =
     vy (thrustVelocity env delta s) * finalDrag env s
       + vy (fst (buoyancyTotals env s)) * (0.01 * delta) - 0.05 * delta"
  by (simp add: newVelocity_def beforeCap_def capHorizontal_def Let_def add_def
      multiplyScalar_def vec_def)

lemma thrustVelocity_idle:
  "\<not> forward env \<Longrightarrow> \<not> backward env \<Longrightarrow> thrustVelocity env delta s = velocity s"
  by (simp add: thrustVelocity_def Let_def)

lemma foldl_buoyancyStep_dry:
  "(\<And>p. p \<in> set ps \<Longrightarrow> calculateBuoyancyForce env p (position s) (shipMatrix s) = vec 0 0 0)
   \<Longrightarrow> foldl (buoyancyStep env s) acc ps = acc"
  by (induction ps arbitrary: acc) (simp_all add: buoyancyStep_def lengthSq_def vec_def)

lemma buoyancyTotals_dry:
  assumes "ocean env = None"
    and "\<And>p. p \<in> set (buoyancyPoints s) \<Longrightarrow> 0 < vy p + vy (position s)"
  shows "buoyancyTotals env s = (vec 0 0 0, vec 0 0 0)"
  unfolding buoyancyTotals_def
proof (rule foldl_buoyancyStep_dry)
  fix p assume "p \<in> set (buoyancyPoints s)"
  then have "0 < vy p + vy (position s)" by (rule assms(2))
  then show "calculateBuoyancyForce env p (position s) (shipMatrix s) = vec 0 0 0"
    using assms(1)
    by (simp add: calculateBuoyancyForce_def getWaveHeight_def applyMatrix4_def
        applyAxisAngleY_def shipMatrix_def add_def vec_def Let_def)
qed

section \<open>Horizontal velocity\<close>

lemma thrustVelocity_forward:
  assumes "forward env" "\<not> backward env"
  shows "vx (thrustVelocity env delta s) =
           vx (velocity s) + sailEfficiency (damage env) * vx (drive env delta s)"
    and "vz (thrustVelocity env delta s) =
           vz (velocity s) + sailEfficiency (damage env) * vz (drive env delta s)"
  using assms
  by (simp_all add: thrustVelocity_def drive_def Let_def add_def multiplyScalar_def vec_def
      algebra_simps)

lemma calculateBuoyancyForce_horizontal:
  "vx (calculateBuoyancyForce env p w m) = 0" "vz (calculateBuoyancyForce env p w m) = 0"
  by (simp_all add: calculateBuoyancyForce_def Let_def vec_def)

lemma foldl_buoyancyStep_horizontal:
  "vx (fst (foldl (buoyancyStep env s) acc ps)) = vx (fst acc)
   \<and> vz (fst (foldl (buoyancyStep env s) acc ps)) = vz (fst acc)"
proof (induction ps arbitrary: acc)
  case Nil
  show ?case by simp
next
  case (Cons p ps)
  have "vx (fst (buoyancyStep env s acc p)) = vx (fst acc)
        \<and> vz (fst (buoyancyStep env s acc p)) = vz (fst acc)"
    by (simp add: buoyancyStep_def Let_def add_def vec_def calculateBuoyancyForce_horizontal)
  then show ?case using Cons.IH [of "buoyancyStep env s acc p"] by simp
qed

lemma buoyancyTotals_horizontal:
  "vx (fst (buoyancyTotals env s)) = 0" "vz (fst (buoyancyTotals env s)) = 0"
  using foldl_buoyancyStep_horizontal [of env s "(vec 0 0 0, vec 0 0 0)" "buoyancyPoints s"]
  by (simp_all add: buoyancyTotals_def vec_def)

lemma newVelocity_beforeCap:
  "newVelocity env delta s = capHorizontal (maxSpeed env s) (beforeCap env delta s)"
  by (simp add: newVelocity_def)

lemma beforeCap_horizontal:
  "vx (beforeCap env delta s) = finalDrag env s * vx (thrustVelocity env delta s)"
  "vz (beforeCap env delta s) = finalDrag env s * vz (thrustVelocity env delta s)"
  by (simp_all add: beforeCap_def Let_def add_def multiplyScalar_def vec_def
      buoyancyTotals_horizontal)

lemma horizontalSpeed_eq: "horizontalSpeed v = sqrt ((vx v)\<^sup>2 + (vz v)\<^sup>2)"
  by (simp add: horizontalSpeed_def length'_def lengthSq_def vec_def power2_eq_square)

lemma capHorizontal_id: "horizontalSpeed q \<le> c \<Longrightarrow> capHorizontal c q = q"
  by (simp add: capHorizontal_def horizontalSpeed_def Let_def)

lemma cap_algebra:
  fixes x z l c :: real
  assumes "l\<^sup>2 = x\<^sup>2 + z\<^sup>2" "0 < l"
  shows "(x / l * c)\<^sup>2 + (z / l * c)\<^sup>2 = c\<^sup>2"
proof -
  have "(x / l * c)\<^sup>2 + (z / l * c)\<^sup>2 = (x\<^sup>2 + z\<^sup>2) / l\<^sup>2 * c\<^sup>2"
    by (simp add: power_mult_distrib power_divide add_divide_distrib distrib_right)
  also have "\<dots> = l\<^sup>2 / l\<^sup>2 * c\<^sup>2" by (simp only: assms(1))
  also have "\<dots> = c\<^sup>2" using assms(2) by simp
  finally show ?thesis .
qed

lemma capHorizontal_speed:
  assumes "c < horizontalSpeed q" "0 \<le> c"
  shows "horizontalSpeed (capHorizontal c q) = c"
proof -
  let ?L = "sqrt ((vx q)\<^sup>2 + (vz q)\<^sup>2)"
  have L: "c < ?L" using assms by (simp add: horizontalSpeed_eq)
  then have Lpos: "0 < ?L" using assms(2) by linarith
  have sq: "?L\<^sup>2 = (vx q)\<^sup>2 + (vz q)\<^sup>2" by simp
  have l: "length' \<lparr>vx = vx q, vy = 0, vz = vz q\<rparr> = ?L"
    by (simp add: length'_def lengthSq_def power2_eq_square)
  have cap: "vx (capHorizontal c q) = vx q / ?L * c" "vz (capHorizontal c q) = vz q / ?L * c"
    using L Lpos
    by (simp_all add: capHorizontal_def Let_def l normalize_def multiplyScalar_def vec_def)
  have "horizontalSpeed (capHorizontal c q) = sqrt (c\<^sup>2)"
    unfolding horizontalSpeed_eq cap cap_algebra [OF sq Lpos] ..
  then show ?thesis using assms(2) by simp
qed

lemma horizontalSpeed_cong:
  "vx u = vx v \<Longrightarrow> vz u = vz v \<Longrightarrow> horizontalSpeed u = horizontalSpeed v"
  by (simp add: horizontalSpeed_eq)


lemma sin_cos_self: "sin x * sin x + cos x * cos x = (1::real)"
  using sin_cos_squared_add3 [of x] by (simp add: add.commute)

lemma forwardDir_eq:
  "forwardDir s = vec (- sin (shipRotation s)) 0 (- cos (shipRotation s))"
  by (simp add: forwardDir_def applyAxisAngleY_def vec_def)

lemma windDirectionToVector_eq: "windDirectionToVector d = vec (cos d) 0 (sin d)"
  by (simp add: windDirectionToVector_def normalize_def length'_def lengthSq_def
      multiplyScalar_def vec_def)

lemma drift_orthogonal:
  fixes a b wx wz :: real
  assumes "a * a + b * b = 1"
  shows "(wx - a * (a * wx + b * wz)) * a + (wz - b * (a * wx + b * wz)) * b = 0"
proof -
  have "(wx - a * (a * wx + b * wz)) * a + (wz - b * (a * wx + b * wz)) * b
          = (a * wx + b * wz) * (1 - (a * a + b * b))"
    by (simp add: algebra_simps)
  then show ?thesis using assms by simp
qed

lemma drive_components:
  fixes env delta s
  defines "a \<equiv> - sin (shipRotation s)" and "b \<equiv> - cos (shipRotation s)"
    and "wx \<equiv> cos (direction (wind env))" and "wz \<equiv> sin (direction (wind env))"
    and "A \<equiv> maxAcceleration (SHIP_STATS (shipClass env)) * delta
               * getPointOfSailMultiplier (angleBetweenWindAndShip env s) * realisticSpeedFactor"
    and "C \<equiv> speedKnots (wind env) * 0.01
               * getPointOfSailMultiplier (angleBetweenWindAndShip env s) * realisticSpeedFactor
               * (0.2 * (10 / cargoCapacity (SHIP_STATS (shipClass env))) * realisticSpeedFactor)"
  shows "vx (drive env delta s) = a * A + (wx - a * (a * wx + b * wz)) * C"
    and "vz (drive env delta s) = b * A + (wz - b * (a * wx + b * wz)) * C"
proof -
  have l: "lengthSq (vec a 0 b) = 1"
    by (simp add: lengthSq_def vec_def a_def b_def sin_cos_self)
  show "vx (drive env delta s) = a * A + (wx - a * (a * wx + b * wz)) * C"
    unfolding drive_def forwardDir_eq windDirectionToVector_eq Let_def projectOnPlane_def
      projectOnVector_def a_def [symmetric] b_def [symmetric] wx_def [symmetric]
      wz_def [symmetric] l
    by (simp add: add_def sub_def multiplyScalar_def dot_def vec_def A_def C_def)
  show "vz (drive env delta s) = b * A + (wz - b * (a * wx + b * wz)) * C"
    unfolding drive_def forwardDir_eq windDirectionToVector_eq Let_def projectOnPlane_def
      projectOnVector_def a_def [symmetric] b_def [symmetric] wx_def [symmetric]
      wz_def [symmetric] l
    by (simp add: add_def sub_def multiplyScalar_def dot_def vec_def A_def C_def)
qed

lemma speed_pos: "0 < speed (SHIP_STATS c)"
  by (cases c) simp_all

lemma getPointOfSailMultiplier_pos: "0 < getPointOfSailMultiplier a"
  by (simp add: getPointOfSailMultiplier_def Let_def)

lemma drive_dot:
  fixes a b A C X Z :: real
  assumes "X * a + Z * b = 0" and "a * a + b * b = 1"
    and "a * A + X * C = 0" and "b * A + Z * C = 0"
  shows "A = 0"
proof -
  have "(a * A + X * C) * a + (b * A + Z * C) * b = A * (a * a + b * b) + C * (X * a + Z * b)"
    by (simp add: algebra_simps)
  then show ?thesis using assms by simp
qed

lemma drive_nonzero:
  assumes "0 < delta"
  shows "0 < (vx (drive env delta s))\<^sup>2 + (vz (drive env delta s))\<^sup>2"
proof (rule ccontr)
  let ?a = "- sin (shipRotation s)" and ?b = "- cos (shipRotation s)"
  let ?A = "maxAcceleration (SHIP_STATS (shipClass env)) * delta
               * getPointOfSailMultiplier (angleBetweenWindAndShip env s) * realisticSpeedFactor"
  assume "\<not> 0 < (vx (drive env delta s))\<^sup>2 + (vz (drive env delta s))\<^sup>2"
  then have "(vx (drive env delta s))\<^sup>2 + (vz (drive env delta s))\<^sup>2 = 0"
    by (smt (verit) zero_le_power2)
  then have z: "vx (drive env delta s) = 0" "vz (drive env delta s) = 0"
    by (simp_all add: sum_power2_eq_zero_iff)
  have u: "?a * ?a + ?b * ?b = 1" by (simp add: sin_cos_self)
  have zero: "?A = 0"
    by (rule drive_dot [OF drift_orthogonal [OF u] u z [unfolded drive_components]])
  have "0 < ?A"
    using assms speed_pos [of "shipClass env"] getPointOfSailMultiplier_pos
    by (simp add: maxAcceleration_def realisticSpeedFactor_def)
  then show False by (simp only: zero less_irrefl)
qed


lemma capHorizontal_horizontal_cong:
  assumes "vx q = vx q'" "vz q = vz q'"
  shows "vx (capHorizontal c q) = vx (capHorizontal c q')"
    and "vz (capHorizontal c q) = vz (capHorizontal c q')"
  using assms by (simp_all add: capHorizontal_def Let_def)

lemma newVelocity_damage_cong:
  assumes "sailIntegrity d = sailIntegrity (damage env)"
    and "mastIntegrity d = mastIntegrity (damage env)"
  shows "vx (newVelocity (env\<lparr>damage := d\<rparr>) delta s) = vx (newVelocity env delta s)"
    and "vz (newVelocity (env\<lparr>damage := d\<rparr>) delta s) = vz (newVelocity env delta s)"
proof -
  have t: "thrustVelocity (env\<lparr>damage := d\<rparr>) delta s = thrustVelocity env delta s"
    using assms
    by (simp add: thrustVelocity_def sailEfficiency_def angleBetweenWindAndShip_def Let_def)
  have f: "finalDrag (env\<lparr>damage := d\<rparr>) s = finalDrag env s"
    by (simp add: finalDrag_def angleBetweenWindAndShip_def)
  have m: "maxSpeed (env\<lparr>damage := d\<rparr>) s = maxSpeed env s"
    by (simp add: maxSpeed_def angleBetweenWindAndShip_def)
  have q: "vx (beforeCap (env\<lparr>damage := d\<rparr>) delta s) = vx (beforeCap env delta s)"
    "vz (beforeCap (env\<lparr>damage := d\<rparr>) delta s) = vz (beforeCap env delta s)"
    by (simp_all add: beforeCap_horizontal t f)
  show "vx (newVelocity (env\<lparr>damage := d\<rparr>) delta s) = vx (newVelocity env delta s)"
    unfolding newVelocity_beforeCap m by (rule capHorizontal_horizontal_cong [OF q])
  show "vz (newVelocity (env\<lparr>damage := d\<rparr>) delta s) = vz (newVelocity env delta s)"
    unfolding newVelocity_beforeCap m by (rule capHorizontal_horizontal_cong [OF q])
qed

lemma maxSpeed_nonneg: "0 \<le> maxSpeed env s"
  using speed_pos [of "shipClass env"]
    getPointOfSailMultiplier_pos [of "angleBetweenWindAndShip env s"]
  by (simp add: maxSpeed_def realisticSpeedFactor_def)

lemma drag_pos:
  fixes t :: real
  assumes "0 \<le> t"
  shows "0 < min (0.95 * (0.98 + 0.04 * t)) 0.99"
  using assms by (simp add: min_def)

lemma finalDrag_bounds: "0 < finalDrag env s" "finalDrag env s < 1"
proof -
  let ?a = "angleBetweenWindAndShip env s"
  show "0 < finalDrag env s"
  proof (cases "?a < pi / 2")
    case True
    then have "?a / (pi / 2) < 1" by (subst pos_divide_less_eq) simp_all
    then have t: "0 \<le> 1 - ?a / (pi / 2)" by simp
    have "finalDrag env s = min (0.95 * (0.98 + 0.04 * (1 - ?a / (pi / 2)))) 0.99"
      using True by (simp add: finalDrag_def baseDrag_def Let_def)
    then show ?thesis using drag_pos [OF t] by (simp only:)
  next
    case False
    then show ?thesis by (simp add: finalDrag_def baseDrag_def Let_def)
  qed
  show "finalDrag env s < 1"
    by (simp add: finalDrag_def Let_def min_def)
qed

section \<open>Turning\<close>

lemma frames_active:
  assumes "shipMounted s" "buoyancyPoints s \<noteq> []" "isInitialized s"
  shows "shipMounted (frames clockAdd env delta n s)
         \<and> buoyancyPoints (frames clockAdd env delta n s) = buoyancyPoints s
         \<and> isInitialized (frames clockAdd env delta n s)
         \<and> shipRotation (frames clockAdd env delta n s) =
             shipRotation s
               + real n * (if right env
                           then - (rotationSpeed (SHIP_STATS (shipClass env)) delta
                                     * rudderIntegrity (damage env))
                           else if left env
                           then rotationSpeed (SHIP_STATS (shipClass env)) delta
                                  * rudderIntegrity (damage env)
                           else 0)"
proof (induction n)
  case 0
  show ?case using assms by simp
next
  case (Suc n)
  let ?t = "frames clockAdd env delta n s"
  have u: "useFrame clockAdd env delta ?t = physicsFrame env delta ?t"
    using Suc.IH assms(2) by (simp add: useFrame_active)
  show ?case
    unfolding frames_Suc_right u using Suc.IH
    by (simp add: physicsFrame_fields newShipRotation_def Let_def algebra_simps)
qed

text \<open>
  C10. The rudder update never reduces the heading modulo \<open>2\<pi>\<close>. In the active phase a
  frame with the left key down sets the heading to the old heading plus
  \<open>rotationSpeed * rudderIntegrity\<close>, and a frame with the right key down (alone or
  together with the left key) to the old heading minus it. With one key held the heading
  after \<open>n\<close> frames is the old one plus, or minus, \<open>n\<close> times the step, so for
  \<open>delta > 0\<close> and a rudder that is not destroyed it exceeds, or falls below, every bound;
  and the angle to the wind is computed from that sum as it is.
\<close>
theorem C10_heading_unbounded:
  fixes env :: ShipEnv and delta :: real
  defines "c \<equiv> rotationSpeed (SHIP_STATS (shipClass env)) delta * rudderIntegrity (damage env)"
  assumes "shipMounted s" "buoyancyPoints s \<noteq> []" "isInitialized s"
  shows "shipRotation (useFrame clockAdd (env\<lparr>left := True, right := False\<rparr>) delta s)
           = shipRotation s + c
     \<and> shipRotation (useFrame clockAdd (env\<lparr>left := False, right := True\<rparr>) delta s)
           = shipRotation s - c
     \<and> shipRotation (useFrame clockAdd (env\<lparr>left := True, right := True\<rparr>) delta s)
           = shipRotation s - c
     \<and> shipRotation (frames clockAdd (env\<lparr>left := True, right := False\<rparr>) delta n s)
           = shipRotation s + real n * c
     \<and> shipRotation (frames clockAdd (env\<lparr>left := False, right := True\<rparr>) delta n s)
           = shipRotation s - real n * c
     \<and> (0 < delta \<and> 0 < rudderIntegrity (damage env) \<longrightarrow>
          (\<exists>k. bound < shipRotation
                          (frames clockAdd (env\<lparr>left := True, right := False\<rparr>) delta k s))
          \<and> (\<exists>k. shipRotation
                    (frames clockAdd (env\<lparr>left := False, right := True\<rparr>) delta k s) < - bound))
     \<and> angleBetweenWindAndShip (env\<lparr>left := True, right := False\<rparr>)
           (frames clockAdd (env\<lparr>left := True, right := False\<rparr>) delta n s)
         = getAngleBetweenWindAndShip (shipRotation s + real n * c) (direction (wind env))
     \<and> angleBetweenWindAndShip (env\<lparr>left := False, right := True\<rparr>)
           (frames clockAdd (env\<lparr>left := False, right := True\<rparr>) delta n s)
         = getAngleBetweenWindAndShip (shipRotation s - real n * c) (direction (wind env))"
proof -
  let ?L = "env\<lparr>left := True, right := False\<rparr>" and ?R = "env\<lparr>left := False, right := True\<rparr>"
  let ?B = "env\<lparr>left := True, right := True\<rparr>"
  have one: "shipRotation (useFrame clockAdd ?L delta s) = shipRotation s + c"
    "shipRotation (useFrame clockAdd ?R delta s) = shipRotation s - c"
    "shipRotation (useFrame clockAdd ?B delta s) = shipRotation s - c"
    using assms(2-4)
    by (simp_all add: useFrame_active physicsFrame_fields newShipRotation_def Let_def c_def)
  have nL: "shipRotation (frames clockAdd ?L delta m s) = shipRotation s + real m * c" for m
    using frames_active [OF assms(2-4), of clockAdd ?L delta m] by (simp add: c_def)
  have nR: "shipRotation (frames clockAdd ?R delta m s) = shipRotation s - real m * c" for m
    using frames_active [OF assms(2-4), of clockAdd ?R delta m] by (simp add: c_def)
  have unb: "(\<exists>k. bound < shipRotation (frames clockAdd ?L delta k s))
             \<and> (\<exists>k. shipRotation (frames clockAdd ?R delta k s) < - bound)"
    if "0 < delta" "0 < rudderIntegrity (damage env)"
  proof -
    have c: "0 < c"
      using that maneuverability_pos [of "shipClass env"] by (simp add: c_def rotationSpeed_def)
    obtain k where "bound - shipRotation s < real k * c"
      using ex_less_of_nat_mult [OF c] by blast
    then have "bound < shipRotation (frames clockAdd ?L delta k s)" by (simp add: nL)
    moreover obtain j where "bound + shipRotation s < real j * c"
      using ex_less_of_nat_mult [OF c] by blast
    then have "shipRotation (frames clockAdd ?R delta j s) < - bound" by (simp add: nR)
    ultimately show ?thesis by blast
  qed
  show ?thesis
    using one nL nR unb by (simp add: angleBetweenWindAndShip_def)
qed

theorem C10_heading_unbounded_witness:
  "shipRotation (frames (+) (initialEnv\<lparr>left := True, right := False\<rparr>) 1 8
                   ((playerShip Frigate)\<lparr>isInitialized := True\<rparr>)) = 8.4
   \<and> 2 * pi < shipRotation (frames (+) (initialEnv\<lparr>left := True, right := False\<rparr>) 1 8
                               ((playerShip Frigate)\<lparr>isInitialized := True\<rparr>))
   \<and> shipRotation (frames (+) (initialEnv\<lparr>left := False, right := True\<rparr>) 1 8
                     ((playerShip Frigate)\<lparr>isInitialized := True\<rparr>)) = - 8.4
   \<and> shipRotation (useFrame (+) (initialEnv\<lparr>left := False, right := True\<rparr>) 1
                      ((playerShip Frigate)\<lparr>isInitialized := True\<rparr>)) = - 1.05
   \<and> (\<exists>k. 1000 < shipRotation (frames (+) (initialEnv\<lparr>left := True, right := False\<rparr>) 1 k
                                    ((playerShip Frigate)\<lparr>isInitialized := True\<rparr>)))
   \<and> (\<exists>k. shipRotation (frames (+) (initialEnv\<lparr>left := False, right := True\<rparr>) 1 k
                            ((playerShip Frigate)\<lparr>isInitialized := True\<rparr>)) < - 1000)"
proof -
  let ?s = "(playerShip Frigate)\<lparr>isInitialized := True\<rparr>"
  have h: "shipMounted ?s" "buoyancyPoints ?s \<noteq> []" "isInitialized ?s"
    by (simp_all add: playerShip_fields)
  have r: "rotationSpeed (SHIP_STATS (shipClass initialEnv)) 1 = 1.05"
    "rudderIntegrity (damage initialEnv) = 1"
    by (simp_all add: initialEnv_def createDefaultShipDamage_def rotationSpeed_def)
  have p: "2 * pi < 8.4" using pi_less_4 by simp
  show ?thesis
    using C10_heading_unbounded [OF h, of "(+)" initialEnv 1 8 1000] p
    by (simp add: r playerShip_fields)
qed

section \<open>The settling phase\<close>

lemma useFrame_settle:
  assumes "shipMounted s" "buoyancyPoints s \<noteq> []" "\<not> isInitialized s" "ocean env = Some g"
  shows "velocity (useFrame clockAdd env delta s) = velocity s"
    and "shipMounted (useFrame clockAdd env delta s)"
    and "buoyancyPoints (useFrame clockAdd env delta s) = buoyancyPoints s"
    and "shipRotation (useFrame clockAdd env delta s) = shipRotation s"
    and "initializationTime (useFrame clockAdd env delta s) = clockAdd (initializationTime s) delta"
    and "isInitialized (useFrame clockAdd env delta s)
           \<longleftrightarrow> 0.5 < clockAdd (initializationTime s) delta"
    and "vy (position (useFrame clockAdd env delta s)) =
           g (vx (position s)) (vz (position s)) - 0.3 * draft (SHIP_STATS (shipClass env)) / 10"
  using assms by (simp_all add: useFrame_def Let_def)

lemma run_active:
  assumes "shipMounted s" "buoyancyPoints s \<noteq> []" "isInitialized s"
  shows "shipMounted (run clockAdd fs s) \<and> buoyancyPoints (run clockAdd fs s) = buoyancyPoints s
         \<and> isInitialized (run clockAdd fs s)"
  using assms
proof (induction fs arbitrary: s)
  case Nil
  then show ?case by simp
next
  case (Cons f fs)
  have u: "useFrame clockAdd (fst f) (snd f) s = physicsFrame (fst f) (snd f) s"
    using Cons.prems by (simp add: useFrame_active)
  show ?case
    using Cons.IH [of "physicsFrame (fst f) (snd f) s"] Cons.prems
    by (simp add: u physicsFrame_fields)
qed

lemma run_settling:
  assumes "shipMounted s" "buoyancyPoints s \<noteq> []" "\<not> isInitialized s"
    and "\<forall>f \<in> set fs. ocean (fst f) \<noteq> None"
  shows "shipMounted (run clockAdd fs s) \<and> buoyancyPoints (run clockAdd fs s) = buoyancyPoints s
     \<and> (isInitialized (run clockAdd fs s)
          \<longleftrightarrow> clockExceeded clockAdd (initializationTime s) (map snd fs))
     \<and> (\<not> clockExceeded clockAdd (initializationTime s) (map snd fs) \<longrightarrow>
          velocity (run clockAdd fs s) = velocity s
          \<and> shipRotation (run clockAdd fs s) = shipRotation s
          \<and> initializationTime (run clockAdd fs s)
              = foldl clockAdd (initializationTime s) (map snd fs))"
  using assms
proof (induction fs arbitrary: s)
  case Nil
  then show ?case by simp
next
  case (Cons f fs)
  let ?s' = "useFrame clockAdd (fst f) (snd f) s"
  obtain g where g: "ocean (fst f) = Some g" using Cons.prems(4) by auto
  note st = useFrame_settle [OF Cons.prems(1-3) g, of clockAdd "snd f"]
  have oc: "\<forall>f \<in> set fs. ocean (fst f) \<noteq> None" using Cons.prems(4) by simp
  have ne: "buoyancyPoints ?s' \<noteq> []" using st(3) Cons.prems(2) by simp
  show ?case
  proof (cases "isInitialized ?s'")
    case True
    then have "0.5 < clockAdd (initializationTime s) (snd f)" using st(6) by simp
    then show ?thesis
      using run_active [OF st(2) ne True, of clockAdd fs] st(3) by simp
  next
    case False
    then have "\<not> 0.5 < clockAdd (initializationTime s) (snd f)" using st(6) by simp
    then show ?thesis
      using Cons.IH [OF st(2) ne False oc] st(1,3,4,5) by simp
  qed
qed

text \<open>
  C8, amended. In a scene with an ocean, for every run of frames of a new ship, whatever
  the inputs and the frame times: as long as the test \<open>initializationTimeRef.current > 0.5\<close>
  has not succeeded, the velocity is the initial one, and the next frame leaves it unchanged
  as well and sets the height of the ship to the wave height under it minus
  \<open>0.3 * draft / 10\<close>; this includes a frame that starts with exactly 0.5 s on the clock
  and the frame on which the clock first exceeds 0.5. Once the test has succeeded, every
  following frame is a full physics frame. The ship is initialized exactly when the test has
  succeeded. In a scene without an ocean the stabilization block does not return: the
  first frame of a new ship advances the clock and is a full physics frame.
\<close>
theorem C8_settling:
  assumes "shipMounted s" "buoyancyPoints s \<noteq> []" "\<not> isInitialized s"
    and "\<forall>f \<in> set fs. ocean (fst f) \<noteq> None" and "ocean env = Some g"
    and "ocean env0 = None"
  shows "(isInitialized (run clockAdd fs s)
            \<longleftrightarrow> clockExceeded clockAdd (initializationTime s) (map snd fs))
     \<and> (\<not> clockExceeded clockAdd (initializationTime s) (map snd fs) \<longrightarrow>
          velocity (run clockAdd fs s) = velocity s
          \<and> velocity (useFrame clockAdd env delta (run clockAdd fs s)) = velocity s
          \<and> vy (position (useFrame clockAdd env delta (run clockAdd fs s)))
              = g (vx (position (run clockAdd fs s))) (vz (position (run clockAdd fs s)))
                  - 0.3 * draft (SHIP_STATS (shipClass env)) / 10)
     \<and> (clockExceeded clockAdd (initializationTime s) (map snd fs) \<longrightarrow>
          useFrame clockAdd env delta (run clockAdd fs s)
            = physicsFrame env delta (run clockAdd fs s))
     \<and> useFrame clockAdd env0 delta s
         = physicsFrame env0 delta (s\<lparr>initializationTime := clockAdd (initializationTime s) delta\<rparr>)"
proof -
  let ?t = "run clockAdd fs s"
  note inv = run_settling [OF assms(1-4), of clockAdd]
  have n0: "useFrame clockAdd env0 delta s
      = physicsFrame env0 delta (s\<lparr>initializationTime := clockAdd (initializationTime s) delta\<rparr>)"
    using assms(1-3,6) by (simp add: useFrame_def Let_def)
  have m: "shipMounted ?t" "buoyancyPoints ?t \<noteq> []" using inv assms(2) by simp_all
  have a: "useFrame clockAdd env delta ?t = physicsFrame env delta ?t"
    if "clockExceeded clockAdd (initializationTime s) (map snd fs)"
    using that inv m by (simp add: useFrame_active)
  have b: "velocity ?t = velocity s
      \<and> velocity (useFrame clockAdd env delta ?t) = velocity s
      \<and> vy (position (useFrame clockAdd env delta ?t))
          = g (vx (position ?t)) (vz (position ?t)) - 0.3 * draft (SHIP_STATS (shipClass env)) / 10"
    if "\<not> clockExceeded clockAdd (initializationTime s) (map snd fs)"
  proof -
    have n: "\<not> isInitialized ?t" using that inv by simp
    show ?thesis
      using useFrame_settle [OF m n assms(5), of clockAdd delta] that inv by simp
  qed
  show ?thesis using inv a b n0 by blast
qed


theorem C8_settling_witness:
  "velocity (useFrame (+) (initialEnv\<lparr>ocean := Some (\<lambda>x z. 0)\<rparr>) (1 / 4)
               (run (+) [(initialEnv\<lparr>ocean := Some (\<lambda>x z. 0)\<rparr>, 1 / 4),
                         (initialEnv\<lparr>ocean := Some (\<lambda>x z. 0), forward := True\<rparr>, 1 / 8)]
                  (playerShip Frigate))) = vec 0 0 0
   \<and> useFrame (+) (initialEnv\<lparr>ocean := Some (\<lambda>x z. 0)\<rparr>) (1 / 16)
        (run (+) [(initialEnv\<lparr>ocean := Some (\<lambda>x z. 0)\<rparr>, 1 / 4),
                  (initialEnv\<lparr>ocean := Some (\<lambda>x z. 0), forward := True\<rparr>, 1 / 8),
                  (initialEnv\<lparr>ocean := Some (\<lambda>x z. 0)\<rparr>, 1 / 4)]
           (playerShip Frigate))
      = physicsFrame (initialEnv\<lparr>ocean := Some (\<lambda>x z. 0)\<rparr>) (1 / 16)
          (run (+) [(initialEnv\<lparr>ocean := Some (\<lambda>x z. 0)\<rparr>, 1 / 4),
                    (initialEnv\<lparr>ocean := Some (\<lambda>x z. 0), forward := True\<rparr>, 1 / 8),
                    (initialEnv\<lparr>ocean := Some (\<lambda>x z. 0)\<rparr>, 1 / 4)]
             (playerShip Frigate))
   \<and> useFrame (+) initialEnv (1 / 16) (playerShip Frigate)
      = physicsFrame initialEnv (1 / 16) ((playerShip Frigate)\<lparr>initializationTime := 1 / 16\<rparr>)"
proof -
  let ?e = "initialEnv\<lparr>ocean := Some (\<lambda>x z. 0)\<rparr>"
  let ?f = "initialEnv\<lparr>ocean := Some (\<lambda>x z. 0), forward := True\<rparr>"
  let ?fs2 = "[(?e, 1 / 4), (?f, 1 / 8)]" and ?fs3 = "[(?e, 1 / 4), (?f, 1 / 8), (?e, 1 / 4)]"
  have h: "shipMounted (playerShip Frigate)" "buoyancyPoints (playerShip Frigate) \<noteq> []"
    "\<not> isInitialized (playerShip Frigate)"
    by (simp_all add: playerShip_fields)
  have o2: "\<forall>f \<in> set ?fs2. ocean (fst f) \<noteq> None" and o3: "\<forall>f \<in> set ?fs3. ocean (fst f) \<noteq> None"
    and oe: "ocean ?e = Some (\<lambda>x z. 0)"
    by simp_all
  have c2: "\<not> clockExceeded (+) (initializationTime (playerShip Frigate)) (map snd ?fs2)"
    and c3: "clockExceeded (+) (initializationTime (playerShip Frigate)) (map snd ?fs3)"
    by (simp_all add: playerShip_fields)
  have on: "ocean initialEnv = None" by (simp add: initialEnv_def)
  show ?thesis
    using C8_settling [OF h o2 oe on, of "(+)" "1 / 4"]
      C8_settling [OF h o3 oe on, of "(+)" "1 / 16"] c2 c3
    by (simp add: playerShip_fields)
qed

lemma ahead_values:
  assumes "shipRotation s = 0" and "wind env = initialState" and "shipClass env = Frigate"
  shows "finalDrag env s = 969 / 1000"
    and "maxSpeed env s = 189 / 1000"
    and "vx (drive env (1 / 4) s) = 171 / 4000000"
    and "vz (drive env (1 / 4) s) = - (9 / 400)"
proof -
  have j: "js_rem 0 (2 * pi) = 0" by (rule js_rem_small) simp
  have a: "angleBetweenWindAndShip env s = 0"
    by (simp add: angleBetweenWindAndShip_def getAngleBetweenWindAndShip_def assms
        initialState_def j Let_def)
  have m: "getPointOfSailMultiplier 0 = 1 / 10"
    by (simp add: getPointOfSailMultiplier_def Let_def)
  show "finalDrag env s = 969 / 1000"
    by (simp add: finalDrag_def a baseDrag_def Let_def)
  show "maxSpeed env s = 189 / 1000"
    by (simp add: maxSpeed_def a m assms(3) realisticSpeedFactor_def)
  show "vx (drive env (1 / 4) s) = 171 / 4000000"
    unfolding drive_components
    by (simp add: a m assms initialState_def maxAcceleration_def realisticSpeedFactor_def)
  show "vz (drive env (1 / 4) s) = - (9 / 400)"
    unfolding drive_components
    by (simp add: a m assms initialState_def maxAcceleration_def realisticSpeedFactor_def)
qed

text \<open>
  C8, as the claim states it, fails in two places. With an ocean, after two frames of
  0.25 s the clock is at 0.5, so the settling duration has elapsed; the third frame still
  leaves the velocity unchanged, where the physics would have moved the ship forward,
  because the test is \<open>> 0.5\<close>. Without an ocean the stabilization block returns only
  inside \<open>if (shipRef.current && scene.userData.ocean)\<close>, so the first frame of a new ship
  already runs the physics and gravity changes the velocity.
\<close>
theorem C8_boundary_and_no_ocean_counterexample:
  "initializationTime
     (run (+) [(initialEnv\<lparr>ocean := Some (\<lambda>x z. 0), forward := True\<rparr>, 1 / 4),
               (initialEnv\<lparr>ocean := Some (\<lambda>x z. 0), forward := True\<rparr>, 1 / 4)]
        (playerShip Frigate)) = 1 / 2
   \<and> vz (velocity
          (useFrame (+) (initialEnv\<lparr>ocean := Some (\<lambda>x z. 0), forward := True\<rparr>) (1 / 4)
             (run (+) [(initialEnv\<lparr>ocean := Some (\<lambda>x z. 0), forward := True\<rparr>, 1 / 4),
                       (initialEnv\<lparr>ocean := Some (\<lambda>x z. 0), forward := True\<rparr>, 1 / 4)]
                (playerShip Frigate)))) = 0
   \<and> vz (newVelocity (initialEnv\<lparr>ocean := Some (\<lambda>x z. 0), forward := True\<rparr>) (1 / 4)
          (run (+) [(initialEnv\<lparr>ocean := Some (\<lambda>x z. 0), forward := True\<rparr>, 1 / 4),
                    (initialEnv\<lparr>ocean := Some (\<lambda>x z. 0), forward := True\<rparr>, 1 / 4)]
             (playerShip Frigate))) = - (8721 / 400000)
   \<and> \<not> isInitialized (playerShip Frigate)
   \<and> vy (velocity (playerShip Frigate)) = 0
   \<and> vy (velocity (useFrame (+) initialEnv (1 / 8) (playerShip Frigate))) = - (1 / 160)"
proof -
  let ?e = "initialEnv\<lparr>ocean := Some (\<lambda>x z. 0), forward := True\<rparr>"
  let ?fs = "[(?e, 1 / 4), (?e, 1 / 4)]"
  let ?t = "run (+) ?fs (playerShip Frigate)"
  have h: "shipMounted (playerShip Frigate)" "buoyancyPoints (playerShip Frigate) \<noteq> []"
    "\<not> isInitialized (playerShip Frigate)"
    by (simp_all add: playerShip_fields)
  have o: "\<forall>f \<in> set ?fs. ocean (fst f) \<noteq> None" by simp
  have c: "\<not> clockExceeded (+) (initializationTime (playerShip Frigate)) (map snd ?fs)"
    by (simp add: playerShip_fields)
  note inv = run_settling [OF h o, of "(+)"]
  have t: "shipMounted ?t" "buoyancyPoints ?t \<noteq> []" "\<not> isInitialized ?t"
    "velocity ?t = vec 0 0 0" "shipRotation ?t = 0" "initializationTime ?t = 1 / 2"
    using inv c h(2) by (simp_all add: playerShip_fields)
  have oe: "ocean ?e = Some (\<lambda>x z. 0)" by simp
  have 1: "vz (velocity (useFrame (+) ?e (1 / 4) ?t)) = 0"
    unfolding useFrame_settle(1) [OF t(1-3) oe] t(4) by (simp add: vec_def)
  have w: "wind ?e = initialState" "shipClass ?e = Frigate" by (simp_all add: initialEnv_def)
  note v = ahead_values [OF t(5) w]
  have eff: "sailEfficiency (damage ?e) = 1"
    by (simp add: initialEnv_def sailEfficiency_def createDefaultShipDamage_def)
  have in': "forward ?e" "\<not> backward ?e" by (simp_all add: initialEnv_def)
  have q: "vx (beforeCap ?e (1 / 4) ?t) = 969 / 1000 * (171 / 4000000)"
    "vz (beforeCap ?e (1 / 4) ?t) = - (8721 / 400000)"
    unfolding beforeCap_horizontal thrustVelocity_forward [OF in'] v eff t(4)
    by (simp_all add: vec_def)
  have "horizontalSpeed (beforeCap ?e (1 / 4) ?t) \<le> maxSpeed ?e ?t"
    unfolding horizontalSpeed_eq q v(2)
    by (rule real_le_lsqrt) (simp_all add: power2_eq_square)
  then have "newVelocity ?e (1 / 4) ?t = beforeCap ?e (1 / 4) ?t"
    unfolding newVelocity_beforeCap by (rule capHorizontal_id)
  then have 2: "vz (newVelocity ?e (1 / 4) ?t) = - (8721 / 400000)" by (simp only: q)
  let ?s = "(playerShip Frigate)\<lparr>initializationTime := initializationTime (playerShip Frigate) + 1 / 8\<rparr>"
  have u: "useFrame (+) initialEnv (1 / 8) (playerShip Frigate) = physicsFrame initialEnv (1 / 8) ?s"
    by (simp add: useFrame_def playerShip_fields initialEnv_def Let_def)
  have b: "buoyancyTotals initialEnv ?s = (vec 0 0 0, vec 0 0 0)"
  proof (rule buoyancyTotals_dry)
    show "ocean initialEnv = None" by (simp add: initialEnv_def)
    fix p assume "p \<in> set (buoyancyPoints ?s)"
    then have "vy p = - 0.4" by (simp add: playerShip_def initBuoyancyPoints_vy)
    then show "0 < vy p + vy (position ?s)" by (simp add: playerShip_fields vec_def)
  qed
  have th: "thrustVelocity initialEnv (1 / 8) ?s = vec 0 0 0"
    by (simp add: thrustVelocity_idle initialEnv_def playerShip_fields)
  have "vy (newVelocity initialEnv (1 / 8) ?s) = - (1 / 160)"
    by (simp add: newVelocity_vy b th vec_def)
  then have 3: "vy (velocity (useFrame (+) initialEnv (1 / 8) (playerShip Frigate))) = - (1 / 160)"
    by (simp add: u physicsFrame_fields)
  have 4: "vy (velocity (playerShip Frigate)) = 0" by (simp add: playerShip_fields vec_def)
  show ?thesis by (intro conjI t(6) 1 2 h(3) 4 3)
qed

section \<open>Terminal horizontal speed and damage\<close>

lemma Re_cnj_le: "Re (a * cnj b) \<le> cmod a * cmod b"
proof -
  have "Re (a * cnj b) \<le> cmod (a * cnj b)" by (rule complex_Re_le_cmod)
  also have "\<dots> = cmod a * cmod b" by (simp add: norm_mult)
  finally show ?thesis .
qed

lemma cmod_diff_sq:
  "(cmod (a - b))\<^sup>2 = (cmod a)\<^sup>2 + (cmod b)\<^sup>2 - 2 * Re (a * cnj b)"
  unfolding cmod_power2 by (simp add: power2_eq_square algebra_simps)

lemma Re_cnj_scale:
  "Re (of_real c * a * cnj (of_real d * b)) = c * d * Re (a * cnj b)"
  by (simp add: algebra_simps)

lemma cmod_scaled:
  assumes "0 \<le> M" "0 < cmod x"
  shows "cmod (of_real (M / cmod x) * x) = M"
proof -
  have "cmod (of_real (M / cmod x) * x) = \<bar>M / cmod x\<bar> * cmod x"
    by (simp only: norm_mult norm_of_real)
  also have "\<dots> = M / cmod x * cmod x" using assms by simp
  also have "\<dots> = M" using assms(2) by simp
  finally show ?thesis .
qed

lemma capDisc_le: "0 \<le> M \<Longrightarrow> cmod (capDisc M q) \<le> M"
proof (cases "M < cmod q")
  case True
  assume M: "0 \<le> M"
  have "0 < cmod q" using M True by linarith
  then have "cmod (of_real (M / cmod q) * q) = M" by (rule cmod_scaled [OF M])
  then show ?thesis using True by (simp add: capDisc_def)
next
  case False
  then show ?thesis by (simp add: capDisc_def)
qed

lemma cap_out_in:
  assumes M: "0 \<le> M" and x: "M < cmod x" and y: "cmod y \<le> M"
  shows "cmod (of_real (M / cmod x) * x - y) \<le> cmod (x - y)"
proof -
  define r where "r = cmod x"
  define l where "l = M / r"
  define p where "p = Re (x * cnj y)"
  have r: "M < r" "0 < r" using x M unfolding r_def by linarith+
  have lr: "l * r = M" using r by (simp add: l_def)
  have l1: "0 \<le> 1 - l" using r M by (simp add: l_def)
  have n: "cmod (of_real l * x) = M"
    unfolding l_def r_def by (rule cmod_scaled [OF M r(2) [unfolded r_def]])
  have "p \<le> r * cmod y" unfolding p_def r_def by (rule Re_cnj_le)
  also have "\<dots> \<le> r * M" using y r by simp
  finally have "(1 - l) * p \<le> (1 - l) * (r * M)" using l1 by (rule mult_left_mono)
  also have "(1 - l) * (r * M) = (r - l * r) * M" by (simp add: algebra_simps)
  also have "\<dots> = (r - M) * M" by (simp only: lr)
  finally have b: "(1 - l) * p \<le> (r - M) * M" .
  have "0 \<le> (r - M)\<^sup>2" by simp
  then have c: "2 * ((r - M) * M) \<le> r\<^sup>2 - M\<^sup>2"
    by (simp add: power2_eq_square algebra_simps)
  have "(cmod (of_real l * x - y))\<^sup>2 = M\<^sup>2 + (cmod y)\<^sup>2 - 2 * (l * p)"
    unfolding cmod_diff_sq n p_def using Re_cnj_scale [of l x 1 y] by simp
  also have "\<dots> \<le> r\<^sup>2 + (cmod y)\<^sup>2 - 2 * p"
    using b c by (simp add: algebra_simps)
  also have "\<dots> = (cmod (x - y))\<^sup>2"
    unfolding cmod_diff_sq r_def p_def by simp
  finally have "(cmod (of_real l * x - y))\<^sup>2 \<le> (cmod (x - y))\<^sup>2" .
  then show ?thesis unfolding l_def r_def by (rule power2_le_imp_le) simp
qed

lemma cap_out_out:
  assumes M: "0 \<le> M" and x: "M < cmod x" and y: "M < cmod y"
  shows "cmod (of_real (M / cmod x) * x - of_real (M / cmod y) * y) \<le> cmod (x - y)"
proof -
  define r where "r = cmod x"
  define t where "t = cmod y"
  define a where "a = M / r"
  define b where "b = M / t"
  define p where "p = Re (x * cnj y)"
  have r: "M < r" "0 < r" using x M unfolding r_def by linarith+
  have t: "M < t" "0 < t" using y M unfolding t_def by linarith+
  have ar: "a * r = M" using r by (simp add: a_def)
  have bt: "b * t = M" using t by (simp add: b_def)
  have a1: "0 \<le> a" "a \<le> 1" using r M by (simp_all add: a_def)
  have b1: "0 \<le> b" "b \<le> 1" using t M by (simp_all add: b_def)
  have "a * b \<le> 1 * 1" using a1 b1 by (intro mult_mono) simp_all
  then have ab: "0 \<le> 1 - a * b" by simp
  have nx: "cmod (of_real a * x) = M"
    unfolding a_def r_def by (rule cmod_scaled [OF M r(2) [unfolded r_def]])
  have ny: "cmod (of_real b * y) = M"
    unfolding b_def t_def by (rule cmod_scaled [OF M t(2) [unfolded t_def]])
  have "p \<le> r * t" unfolding p_def r_def t_def by (rule Re_cnj_le)
  then have "(1 - a * b) * p \<le> (1 - a * b) * (r * t)" using ab by (rule mult_left_mono)
  also have "(1 - a * b) * (r * t) = r * t - (a * r) * (b * t)" by (simp add: algebra_simps)
  also have "\<dots> = r * t - M * M" by (simp only: ar bt)
  finally have e: "(1 - a * b) * p \<le> r * t - M * M" .
  have "0 \<le> (r - t)\<^sup>2" by simp
  then have c: "2 * (r * t) \<le> r\<^sup>2 + t\<^sup>2"
    by (simp add: power2_eq_square algebra_simps)
  have "(cmod (of_real a * x - of_real b * y))\<^sup>2 = M\<^sup>2 + M\<^sup>2 - 2 * (a * b * p)"
    unfolding cmod_diff_sq nx ny p_def Re_cnj_scale by simp
  also have "\<dots> \<le> r\<^sup>2 + t\<^sup>2 - 2 * p"
    using e c by (simp add: power2_eq_square algebra_simps)
  also have "\<dots> = (cmod (x - y))\<^sup>2"
    unfolding cmod_diff_sq r_def t_def p_def by simp
  finally have "(cmod (of_real a * x - of_real b * y))\<^sup>2 \<le> (cmod (x - y))\<^sup>2" .
  then show ?thesis unfolding a_def b_def r_def t_def by (rule power2_le_imp_le) simp
qed

lemma capDisc_nonexpansive:
  assumes "0 \<le> M"
  shows "cmod (capDisc M x - capDisc M y) \<le> cmod (x - y)"
proof (cases "M < cmod x")
  case x: True
  show ?thesis
  proof (cases "M < cmod y")
    case True
    then show ?thesis using x cap_out_out [OF assms x True] by (simp add: capDisc_def)
  next
    case False
    then have "cmod y \<le> M" by simp
    then show ?thesis using x False cap_out_in [OF assms x] by (simp add: capDisc_def)
  qed
next
  case x: False
  show ?thesis
  proof (cases "M < cmod y")
    case True
    have "cmod x \<le> M" using x by simp
    then have "cmod (of_real (M / cmod y) * y - x) \<le> cmod (y - x)"
      by (rule cap_out_in [OF assms True])
    then show ?thesis using x True by (simp add: capDisc_def norm_minus_commute)
  next
    case False
    then show ?thesis using x by (simp add: capDisc_def)
  qed
qed

lemma capDisc_fixed:
  fixes M D :: real and b :: complex
  defines "k \<equiv> D / (1 - D)"
  defines "fp \<equiv> (if k * cmod b \<le> M then of_real k * b else of_real (M / cmod b) * b)"
  assumes M: "0 \<le> M" and D: "0 < D" "D < 1"
  shows "capDisc M (of_real D * (fp + b)) = fp"
    and "cmod fp = min M (k * cmod b)"
proof -
  have k: "0 < k" using D by (simp add: k_def)
  have Dk: "D * (k + 1) = k" using D by (simp add: k_def field_simps)
  show n: "cmod fp = min M (k * cmod b)"
  proof (cases "k * cmod b \<le> M")
    case True
    then show ?thesis using k by (simp add: fp_def norm_mult)
  next
    case False
    then have "0 < k * cmod b" using M by simp
    then have "0 < cmod b" using k by (simp add: zero_less_mult_iff)
    then have "cmod (of_real (M / cmod b) * b) = M" by (rule cmod_scaled [OF M])
    then show ?thesis using False by (simp add: fp_def)
  qed
  show "capDisc M (of_real D * (fp + b)) = fp"
  proof (cases "k * cmod b \<le> M")
    case True
    have "of_real D * (of_real k * b + b) = of_real (D * (k + 1)) * b"
      by (simp add: algebra_simps)
    then have e: "of_real D * (fp + b) = fp" using True by (simp add: fp_def Dk)
    have "cmod fp \<le> M" using n by simp
    then show ?thesis unfolding e by (simp add: capDisc_def)
  next
    case False
    define \<beta> where "\<beta> = cmod b"
    have "0 < k * \<beta>" using False M by (simp add: \<beta>_def)
    then have \<beta>: "0 < \<beta>" using k by (simp add: zero_less_mult_iff)
    have fp: "fp = of_real (M / \<beta>) * b" using False by (simp add: fp_def \<beta>_def)
    define c where "c = D * (M / \<beta> + 1)"
    have q: "of_real D * (fp + b) = of_real c * b"
      by (simp add: fp c_def algebra_simps)
    have c\<beta>: "c * \<beta> = D * (M + \<beta>)" using \<beta> by (simp add: c_def field_simps)
    have "(1 - D) * M < D * \<beta>"
      using False D by (simp add: k_def \<beta>_def field_simps)
    then have big: "M < c * \<beta>" unfolding c\<beta> by (simp add: algebra_simps)
    have cpos: "0 < c" using D M \<beta> by (simp add: c_def add_nonneg_pos)
    have nq: "cmod (of_real c * b) = c * \<beta>" using cpos by (simp add: norm_mult \<beta>_def)
    have "capDisc M (of_real c * b) = of_real (M / (c * \<beta>)) * (of_real c * b)"
      using big by (simp add: capDisc_def nq)
    also have "\<dots> = of_real (M / (c * \<beta>) * c) * b" by simp
    also have "M / (c * \<beta>) * c = M / \<beta>" using cpos \<beta> by simp
    finally have r: "capDisc M (of_real c * b) = of_real (M / \<beta>) * b" .
    show ?thesis unfolding q r by (rule fp [symmetric])
  qed
qed

lemma iterate_conv:
  fixes w :: "nat \<Rightarrow> complex" and M D :: real and b :: complex
  assumes M: "0 \<le> M" and D: "0 < D" "D < 1"
    and step: "\<And>n. w (Suc n) = capDisc M (of_real D * (w n + b))"
  shows "(\<lambda>n. cmod (w n)) \<longlonglongrightarrow> min M (D / (1 - D) * cmod b)"
proof -
  define k where "k = D / (1 - D)"
  define fp where "fp = (if k * cmod b \<le> M then of_real k * b else of_real (M / cmod b) * b)"
  have fpeq: "capDisc M (of_real D * (fp + b)) = fp"
    unfolding fp_def k_def by (rule capDisc_fixed(1) [OF M D])
  have nfp: "cmod fp = min M (k * cmod b)"
    unfolding fp_def k_def by (rule capDisc_fixed(2) [OF M D])
  have contr: "cmod (w (Suc n) - fp) \<le> D * cmod (w n - fp)" for n
  proof -
    have "cmod (w (Suc n) - fp)
            = cmod (capDisc M (of_real D * (w n + b)) - capDisc M (of_real D * (fp + b)))"
      by (simp only: step fpeq)
    also have "\<dots> \<le> cmod (of_real D * (w n + b) - of_real D * (fp + b))"
      by (rule capDisc_nonexpansive [OF M])
    also have "of_real D * (w n + b) - of_real D * (fp + b) = of_real D * (w n - fp)"
      by (simp add: algebra_simps)
    also have "cmod (of_real D * (w n - fp)) = D * cmod (w n - fp)"
      using D by (simp add: norm_mult)
    finally show ?thesis .
  qed
  have geo: "cmod (w n - fp) \<le> D ^ n * cmod (w 0 - fp)" for n
  proof (induction n)
    case 0
    show ?case by simp
  next
    case (Suc n)
    have "cmod (w (Suc n) - fp) \<le> D * cmod (w n - fp)" by (rule contr)
    also have "\<dots> \<le> D * (D ^ n * cmod (w 0 - fp))"
      using Suc D by (intro mult_left_mono) simp_all
    finally show ?case by (simp add: mult.assoc)
  qed
  have "(\<lambda>n. D ^ n) \<longlonglongrightarrow> 0" using D by (intro LIMSEQ_realpow_zero) simp_all
  then have "(\<lambda>n. D ^ n * cmod (w 0 - fp)) \<longlonglongrightarrow> 0 * cmod (w 0 - fp)"
    by (rule tendsto_mult_right)
  then have z: "(\<lambda>n. D ^ n * cmod (w 0 - fp)) \<longlonglongrightarrow> 0" by simp
  have "(\<lambda>n. cmod (w n) - cmod fp) \<longlonglongrightarrow> 0"
  proof (rule tendsto_0_le [OF z])
    show "\<forall>\<^sub>F n in sequentially.
            norm (cmod (w n) - cmod fp) \<le> norm (D ^ n * cmod (w 0 - fp)) * 1"
    proof (rule always_eventually, rule allI)
      fix n
      have "\<bar>cmod (w n) - cmod fp\<bar> \<le> cmod (w n - fp)" by (rule norm_triangle_ineq3)
      also have "\<dots> \<le> D ^ n * cmod (w 0 - fp)" by (rule geo)
      also have "\<dots> \<le> \<bar>D ^ n * cmod (w 0 - fp)\<bar>" by simp
      finally show "norm (cmod (w n) - cmod fp) \<le> norm (D ^ n * cmod (w 0 - fp)) * 1"
        by simp
    qed
  qed
  then have "(\<lambda>n. cmod (w n)) \<longlonglongrightarrow> cmod fp" by (simp only: LIM_zero_iff)
  then show ?thesis by (simp only: nfp k_def)
qed

lemma cmod_planar: "cmod (planar v) = horizontalSpeed v"
  by (simp add: planar_def cmod_def horizontalSpeed_eq)

lemma capHorizontal_components:
  assumes "c < horizontalSpeed q" "0 \<le> c"
  shows "vx (capHorizontal c q) = c / horizontalSpeed q * vx q"
    and "vz (capHorizontal c q) = c / horizontalSpeed q * vz q"
proof -
  let ?L = "sqrt ((vx q)\<^sup>2 + (vz q)\<^sup>2)"
  have L: "c < ?L" using assms by (simp add: horizontalSpeed_eq)
  then have Lpos: "0 < ?L" using assms(2) by linarith
  have l: "length' \<lparr>vx = vx q, vy = 0, vz = vz q\<rparr> = ?L"
    by (simp add: length'_def lengthSq_def power2_eq_square)
  show "vx (capHorizontal c q) = c / horizontalSpeed q * vx q"
    "vz (capHorizontal c q) = c / horizontalSpeed q * vz q"
    unfolding horizontalSpeed_eq using L Lpos
    by (simp_all add: capHorizontal_def Let_def l normalize_def multiplyScalar_def vec_def)
qed

lemma planar_capHorizontal:
  assumes "0 \<le> c"
  shows "planar (capHorizontal c q) = capDisc c (planar q)"
proof (cases "c < horizontalSpeed q")
  case True
  have "planar (capHorizontal c q) = of_real (c / horizontalSpeed q) * planar q"
    by (rule complex_eqI)
      (simp_all add: planar_def capHorizontal_components [OF True assms])
  then show ?thesis using True by (simp add: capDisc_def cmod_planar)
next
  case False
  then have "capHorizontal c q = q" by (intro capHorizontal_id) simp
  then show ?thesis using False by (simp add: capDisc_def cmod_planar)
qed

lemma planar_newVelocity:
  assumes "forward env" "\<not> backward env"
  shows "planar (newVelocity env delta s) =
           capDisc (maxSpeed env s)
             (of_real (finalDrag env s)
                * (planar (velocity s)
                     + of_real (sailEfficiency (damage env)) * planar (drive env delta s)))"
proof -
  have "planar (beforeCap env delta s) =
          of_real (finalDrag env s)
            * (planar (velocity s)
                 + of_real (sailEfficiency (damage env)) * planar (drive env delta s))"
    by (rule complex_eqI)
      (simp_all add: planar_def beforeCap_horizontal thrustVelocity_forward [OF assms])
  then show ?thesis
    by (simp only: newVelocity_beforeCap planar_capHorizontal [OF maxSpeed_nonneg])
qed

lemma heading_cong:
  assumes "shipRotation s' = shipRotation s"
  shows "drive env delta s' = drive env delta s"
    and "finalDrag env s' = finalDrag env s"
    and "maxSpeed env s' = maxSpeed env s"
  using assms
  by (simp_all add: drive_def finalDrag_def maxSpeed_def angleBetweenWindAndShip_def
      forwardDir_def Let_def)

lemma damage_cong:
  "drive (env\<lparr>damage := d\<rparr>) delta s = drive env delta s"
  "finalDrag (env\<lparr>damage := d\<rparr>) s = finalDrag env s"
  "maxSpeed (env\<lparr>damage := d\<rparr>) s = maxSpeed env s"
  by (simp_all add: drive_def finalDrag_def maxSpeed_def angleBetweenWindAndShip_def Let_def)

lemma speedAfter_tendsto:
  assumes "shipMounted s" "buoyancyPoints s \<noteq> []" "isInitialized s"
    and "forward env" "\<not> backward env" "\<not> left env" "\<not> right env"
  shows "speedAfter clockAdd env delta s \<longlonglongrightarrow> terminalSpeed env delta s"
proof -
  define w where "w n = planar (velocity (frames clockAdd env delta n s))" for n
  define b where "b = of_real (sailEfficiency (damage env)) * planar (drive env delta s)"
  have step: "w (Suc n) = capDisc (maxSpeed env s) (of_real (finalDrag env s) * (w n + b))" for n
  proof -
    let ?t = "frames clockAdd env delta n s"
    have a: "shipMounted ?t" "buoyancyPoints ?t \<noteq> []" "isInitialized ?t"
      and r: "shipRotation ?t = shipRotation s"
      using frames_active [OF assms(1-3), of clockAdd env delta n] assms(2,6,7) by simp_all
    have "velocity (frames clockAdd env delta (Suc n) s) = newVelocity env delta ?t"
      unfolding frames_Suc_right useFrame_active [OF a] by (rule physicsFrame_fields(6))
    then show ?thesis
      unfolding w_def b_def
      by (simp only: planar_newVelocity [OF assms(4,5)] heading_cong [OF r])
  qed
  have "(\<lambda>n. cmod (w n)) \<longlonglongrightarrow>
          min (maxSpeed env s) (finalDrag env s / (1 - finalDrag env s) * cmod b)"
    by (rule iterate_conv [where w = w and b = b, OF maxSpeed_nonneg finalDrag_bounds step])
  moreover have "cmod b = \<bar>sailEfficiency (damage env)\<bar> * horizontalSpeed (drive env delta s)"
    by (simp add: b_def norm_mult cmod_planar)
  moreover have "(\<lambda>n. cmod (w n)) = speedAfter clockAdd env delta s"
    by (rule ext) (simp add: w_def speedAfter_def cmod_planar)
  ultimately show ?thesis by (simp add: terminalSpeed_def)
qed

lemma horizontalSpeed_drive_pos:
  assumes "0 < delta"
  shows "0 < horizontalSpeed (drive env delta s)"
  unfolding horizontalSpeed_eq using drive_nonzero [OF assms, of env s] by simp

lemma terminalSpeed_compare:
  fixes M k U :: real
  assumes "0 < k" "0 < U"
  shows "(min M (k * (\<bar>1 / 2\<bar> * U)) < min M (k * (\<bar>1\<bar> * U))) = (min M (k * (\<bar>1 / 2\<bar> * U)) < M)"
    and "min M (k * (\<bar>1 / 2\<bar> * U)) \<le> min M (k * (\<bar>1\<bar> * U))"
proof -
  have "0 < k * U" using assms by (rule mult_pos_pos)
  then have "k * (\<bar>1 / 2\<bar> * U) < k * (\<bar>1\<bar> * U)" by (simp add: mult.commute)
  then show "(min M (k * (\<bar>1 / 2\<bar> * U)) < min M (k * (\<bar>1\<bar> * U))) = (min M (k * (\<bar>1 / 2\<bar> * U)) < M)"
    and "min M (k * (\<bar>1 / 2\<bar> * U)) \<le> min M (k * (\<bar>1\<bar> * U))"
    by (auto simp only: min_def split: if_splits)
qed

text \<open>
  C6, amended. With the forward key down, no turning and \<open>delta > 0\<close>, at any point of sail
  and so at the optimal one: the horizontal speed of an active ship after \<open>n\<close> frames
  tends, as \<open>n\<close> grows and whatever velocity it starts from, to its terminal speed, the
  smaller of the speed cap and \<open>drag / (1 - drag)\<close> times the sail efficiency times the
  length of the push of one frame. With the sail integrity or the mast integrity at 0.5
  the terminal speed is never higher than that of the intact ship, and it is strictly
  lower exactly when it is below the speed cap (otherwise both ships end at the cap, which
  is the same for both). With the hull integrity or the rudder integrity at 0.5 the speed
  tends to the terminal speed of the intact ship.
\<close>
theorem C6_sail_mast_terminal_speed:
  assumes "shipMounted s" "buoyancyPoints s \<noteq> []" "isInitialized s"
    and "forward env" "\<not> backward env" "\<not> left env" "\<not> right env" "0 < delta"
    and "damage env = createDefaultShipDamage"
    and "d = createDefaultShipDamage\<lparr>sailIntegrity := 1 / 2\<rparr>
         \<or> d = createDefaultShipDamage\<lparr>mastIntegrity := 1 / 2\<rparr>"
    and "h = createDefaultShipDamage\<lparr>hullIntegrity := 1 / 2\<rparr>
         \<or> h = createDefaultShipDamage\<lparr>rudderIntegrity := 1 / 2\<rparr>"
  shows "speedAfter clockAdd env delta s \<longlonglongrightarrow> terminalSpeed env delta s
     \<and> speedAfter clockAdd (env\<lparr>damage := d\<rparr>) delta s
         \<longlonglongrightarrow> terminalSpeed (env\<lparr>damage := d\<rparr>) delta s
     \<and> speedAfter clockAdd (env\<lparr>damage := h\<rparr>) delta s
         \<longlonglongrightarrow> terminalSpeed env delta s
     \<and> terminalSpeed (env\<lparr>damage := d\<rparr>) delta s \<le> terminalSpeed env delta s
     \<and> (terminalSpeed (env\<lparr>damage := d\<rparr>) delta s < terminalSpeed env delta s)
         = (terminalSpeed (env\<lparr>damage := d\<rparr>) delta s < maxSpeed env s)
     \<and> terminalSpeed env delta s \<le> maxSpeed env s
     \<and> maxSpeed (env\<lparr>damage := d\<rparr>) s = maxSpeed env s"
proof -
  let ?ed = "env\<lparr>damage := d\<rparr>" and ?eh = "env\<lparr>damage := h\<rparr>"
  define k where "k = finalDrag env s / (1 - finalDrag env s)"
  define U where "U = horizontalSpeed (drive env delta s)"
  have k: "0 < k" unfolding k_def using finalDrag_bounds [of env s] by simp
  have U: "0 < U" unfolding U_def by (rule horizontalSpeed_drive_pos [OF assms(8)])
  have eff: "sailEfficiency (damage env) = 1"
    by (simp add: assms(9) sailEfficiency_def createDefaultShipDamage_def)
  have effd: "sailEfficiency (damage ?ed) = 1 / 2"
    using assms(10) by (auto simp: sailEfficiency_def createDefaultShipDamage_def)
  have effh: "sailEfficiency (damage ?eh) = 1"
    using assms(11) by (auto simp: sailEfficiency_def createDefaultShipDamage_def)
  have T: "terminalSpeed env delta s = min (maxSpeed env s) (k * (\<bar>1\<bar> * U))"
    by (simp only: terminalSpeed_def eff k_def U_def)
  have Td: "terminalSpeed ?ed delta s = min (maxSpeed env s) (k * (\<bar>1 / 2\<bar> * U))"
    by (simp only: terminalSpeed_def effd damage_cong k_def U_def)
  have Th: "terminalSpeed ?eh delta s = terminalSpeed env delta s"
    by (simp only: terminalSpeed_def effh eff damage_cong)
  have 1: "speedAfter clockAdd env delta s \<longlonglongrightarrow> terminalSpeed env delta s"
    by (rule speedAfter_tendsto [OF assms(1-7)])
  have 2: "speedAfter clockAdd ?ed delta s \<longlonglongrightarrow> terminalSpeed ?ed delta s"
    by (rule speedAfter_tendsto [OF assms(1-3)]) (simp_all add: assms(4-7))
  have "speedAfter clockAdd ?eh delta s \<longlonglongrightarrow> terminalSpeed ?eh delta s"
    by (rule speedAfter_tendsto [OF assms(1-3)]) (simp_all add: assms(4-7))
  then have 3: "speedAfter clockAdd ?eh delta s \<longlonglongrightarrow> terminalSpeed env delta s"
    by (simp only: Th)
  have 4: "terminalSpeed ?ed delta s \<le> terminalSpeed env delta s"
    unfolding T Td by (rule terminalSpeed_compare(2) [OF k U])
  have 5: "(terminalSpeed ?ed delta s < terminalSpeed env delta s)
             = (terminalSpeed ?ed delta s < maxSpeed env s)"
    unfolding T Td by (rule terminalSpeed_compare(1) [OF k U])
  have 6: "terminalSpeed env delta s \<le> maxSpeed env s" unfolding T by simp
  have 7: "maxSpeed ?ed s = maxSpeed env s" by (rule damage_cong)
  show ?thesis by (intro conjI 1 2 3 4 5 6 7)
qed

lemma reach_angle:
  assumes "shipRotation s = 0" and "direction (wind env) = 7 * pi / 12"
  shows "angleBetweenWindAndShip env s = 7 * pi / 12"
proof -
  have 1: "js_rem 0 (2 * pi) = 0" by (rule js_rem_small) simp
  have 2: "js_rem (7 * pi / 12) (2 * pi) = 7 * pi / 12" by (rule js_rem_small) simp
  show ?thesis
    by (simp add: angleBetweenWindAndShip_def getAngleBetweenWindAndShip_def assms 1 2 Let_def)
qed

lemma reach_multiplier: "getPointOfSailMultiplier (7 * pi / 12) = 1"
  by (simp add: getPointOfSailMultiplier_def Let_def)

lemma reach_values:
  assumes "shipRotation s = 0" and "wind env = setDirection (7 * pi / 12) initialState"
    and "shipClass env = Frigate"
  shows "finalDrag env s = 931 / 1000"
    and "maxSpeed env s = 27 / 100"
    and "vx (drive env delta s) = cos (7 * pi / 12) * (171 / 400000)"
    and "vz (drive env delta s) = - (9 / 10 * delta)"
proof -
  have d: "direction (wind env) = 7 * pi / 12" by (simp add: assms(2) setDirection_def)
  have k: "speedKnots (wind env) = 19" by (simp add: assms(2) setDirection_def initialState_def)
  note a = reach_angle [OF assms(1) d]
  show "finalDrag env s = 931 / 1000"
    by (simp add: finalDrag_def a baseDrag_def Let_def)
  show "maxSpeed env s = 27 / 100"
    by (simp add: maxSpeed_def a reach_multiplier assms(3) realisticSpeedFactor_def)
  show "vx (drive env delta s) = cos (7 * pi / 12) * (171 / 400000)"
    unfolding drive_components
    by (simp add: a reach_multiplier assms(1,3) d k maxAcceleration_def realisticSpeedFactor_def)
  show "vz (drive env delta s) = - (9 / 10 * delta)"
    unfolding drive_components
    by (simp add: a reach_multiplier assms(1,3) d k maxAcceleration_def realisticSpeedFactor_def)
qed

lemma reach_push_bounds:
  assumes "shipRotation s = 0" and "wind env = setDirection (7 * pi / 12) initialState"
    and "shipClass env = Frigate" and "0 \<le> delta"
  shows "9 / 10 * delta \<le> horizontalSpeed (drive env delta s)"
    and "horizontalSpeed (drive env delta s) \<le> sqrt ((171 / 400000)\<^sup>2 + (9 / 10 * delta)\<^sup>2)"
proof -
  define c where "c = cos (7 * pi / 12)"
  define C :: real where "C = 171 / 400000"
  define A where "A = 9 / 10 * delta"
  have U: "horizontalSpeed (drive env delta s) = sqrt ((c * C)\<^sup>2 + A\<^sup>2)"
    unfolding horizontalSpeed_eq reach_values(3,4) [OF assms(1-3)] c_def C_def A_def by simp
  show "9 / 10 * delta \<le> horizontalSpeed (drive env delta s)"
    unfolding U A_def [symmetric] by (rule real_sqrt_sum_squares_ge2)
  have "c\<^sup>2 \<le> 1" unfolding c_def using abs_cos_le_one [of "7 * pi / 12"]
    by (simp only: abs_square_le_1)
  then have "c\<^sup>2 * C\<^sup>2 \<le> 1 * C\<^sup>2" by (rule mult_right_mono) simp
  then have "(c * C)\<^sup>2 + A\<^sup>2 \<le> C\<^sup>2 + A\<^sup>2" by (simp add: power_mult_distrib)
  then have "sqrt ((c * C)\<^sup>2 + A\<^sup>2) \<le> sqrt (C\<^sup>2 + A\<^sup>2)" by (rule real_sqrt_le_mono)
  then show "horizontalSpeed (drive env delta s) \<le> sqrt ((171 / 400000)\<^sup>2 + (9 / 10 * delta)\<^sup>2)"
    unfolding U C_def A_def .
qed

lemma reach_terminalSpeed:
  assumes "shipRotation s = 0" and "wind env = setDirection (7 * pi / 12) initialState"
    and "shipClass env = Frigate"
  shows "terminalSpeed env delta s =
           min (27 / 100)
               (931 / 69 * (\<bar>sailEfficiency (damage env)\<bar> * horizontalSpeed (drive env delta s)))"
  unfolding terminalSpeed_def reach_values(1,2) [OF assms] by simp

lemma settled_fields:
  "shipMounted settledShip" "buoyancyPoints settledShip \<noteq> []" "isInitialized settledShip"
  "shipRotation settledShip = 0" "velocity settledShip = vec 0 0 0"
proof -
  let ?s0 = "playerShip Frigate"
  let ?s1 = "useFrame (+) reachEnv (1 / 4) ?s0"
  let ?s2 = "useFrame (+) reachEnv (1 / 4) ?s1"
  let ?s3 = "useFrame (+) reachEnv (1 / 4) ?s2"
  have e: "settledShip = ?s3" by (simp add: numeral_3_eq_3)
  have o: "ocean reachEnv = Some (\<lambda>x z. 0)" by simp
  note a = useFrame_settle [OF playerShip_fields(1,2,3) o, of "(+)" "1 / 4"]
  have n1: "buoyancyPoints ?s1 \<noteq> []" using a(3) playerShip_fields(2) by simp
  have i1: "\<not> isInitialized ?s1" using a(6) by (simp add: playerShip_fields)
  note b = useFrame_settle [OF a(2) n1 i1 o, of "(+)" "1 / 4"]
  have n2: "buoyancyPoints ?s2 \<noteq> []" using b(3) n1 by simp
  have i2: "\<not> isInitialized ?s2" using b(6) a(5) by (simp add: playerShip_fields)
  note c = useFrame_settle [OF b(2) n2 i2 o, of "(+)" "1 / 4"]
  show "shipMounted settledShip" unfolding e by (rule c(2))
  show "buoyancyPoints settledShip \<noteq> []" unfolding e using c(3) n2 by simp
  show "isInitialized settledShip"
    unfolding e using c(6) b(5) a(5) by (simp add: playerShip_fields)
  show "shipRotation settledShip = 0"
    unfolding e using c(4) b(4) a(4) by (simp add: playerShip_fields)
  show "velocity settledShip = vec 0 0 0"
    unfolding e using c(1) b(1) a(1) by (simp add: playerShip_fields)
qed

lemma reach_fields:
  "shipMounted settledShip" "buoyancyPoints settledShip \<noteq> []" "isInitialized settledShip"
  "shipRotation settledShip = 0"
  "forward (reachEnv\<lparr>damage := d\<rparr>)" "\<not> backward (reachEnv\<lparr>damage := d\<rparr>)"
  "\<not> left (reachEnv\<lparr>damage := d\<rparr>)" "\<not> right (reachEnv\<lparr>damage := d\<rparr>)"
  "wind (reachEnv\<lparr>damage := d\<rparr>) = setDirection (7 * pi / 12) initialState"
  "shipClass (reachEnv\<lparr>damage := d\<rparr>) = Frigate"
  "reachEnv\<lparr>damage := createDefaultShipDamage\<rparr> = reachEnv"
  by (simp_all only: settled_fields) (simp_all add: initialEnv_def)

lemma reach_capped:
  assumes "sailEfficiency d = 1 \<or> sailEfficiency d = 1 / 2"
  shows "speedAfter clockAdd (reachEnv\<lparr>damage := d\<rparr>) (1 / 16) settledShip
           \<longlonglongrightarrow> 27 / 100"
proof -
  let ?e = "reachEnv\<lparr>damage := d\<rparr>"
  define U where "U = horizontalSpeed (drive ?e (1 / 16) settledShip)"
  have "9 / 10 * (1 / 16) \<le> U"
    unfolding U_def by (rule reach_push_bounds(1) [OF reach_fields(4,9,10)]) simp
  then have U: "9 / 160 \<le> U" by simp
  have c1: "27 / 100 \<le> 931 / 69 * (\<bar>1\<bar> * U)" using U by simp
  have c2: "27 / 100 \<le> 931 / 69 * (\<bar>1 / 2\<bar> * U)" using U by simp
  have "27 / 100 \<le> 931 / 69 * (\<bar>sailEfficiency d\<bar> * U)"
    using assms c1 c2 by (elim disjE) (simp_all only:)
  then have "27 / 100 \<le> 931 / 69 * (\<bar>sailEfficiency (damage ?e)\<bar> * U)"
    by simp
  then have "terminalSpeed ?e (1 / 16) settledShip = 27 / 100"
    unfolding reach_terminalSpeed [OF reach_fields(4,9,10)] U_def by simp
  then have eq: "terminalSpeed ?e (1 / 16) settledShip = 27 / 100" .
  have "speedAfter clockAdd ?e (1 / 16) settledShip \<longlonglongrightarrow> terminalSpeed ?e (1 / 16) settledShip"
    by (rule speedAfter_tendsto [OF reach_fields(1-3,5-8)])
  then show ?thesis by (simp only: eq)
qed

lemma reach_uncapped:
  assumes "sailEfficiency d = 1"
  shows "speedAfter clockAdd (reachEnv\<lparr>damage := d\<rparr>) (1 / 64) settledShip
           \<longlonglongrightarrow> terminalSpeed reachEnv (1 / 64) settledShip"
proof -
  let ?e = "reachEnv\<lparr>damage := d\<rparr>"
  have "sailEfficiency (damage ?e) = sailEfficiency (damage reachEnv)"
    using assms by (simp add: sailEfficiency_def initialEnv_def createDefaultShipDamage_def)
  then have "terminalSpeed ?e (1 / 64) settledShip = terminalSpeed reachEnv (1 / 64) settledShip"
    by (simp only: terminalSpeed_def damage_cong)
  then have eq: "terminalSpeed ?e (1 / 64) settledShip = terminalSpeed reachEnv (1 / 64) settledShip" .
  have "speedAfter clockAdd ?e (1 / 64) settledShip \<longlonglongrightarrow> terminalSpeed ?e (1 / 64) settledShip"
    by (rule speedAfter_tendsto [OF reach_fields(1-3,5-8)])
  then show ?thesis by (simp only: eq)
qed

lemma reach_push_64:
  "9 / 640 \<le> horizontalSpeed (drive (reachEnv\<lparr>damage := d\<rparr>) (1 / 64) settledShip)"
  "horizontalSpeed (drive (reachEnv\<lparr>damage := d\<rparr>) (1 / 64) settledShip) \<le> 1408 / 100000"
proof -
  let ?U = "horizontalSpeed (drive (reachEnv\<lparr>damage := d\<rparr>) (1 / 64) settledShip)"
  have "9 / 10 * (1 / 64) \<le> ?U"
    by (rule reach_push_bounds(1) [OF reach_fields(4,9,10)]) simp
  then show "9 / 640 \<le> ?U" by simp
  have "?U \<le> sqrt ((171 / 400000)\<^sup>2 + (9 / 10 * (1 / 64))\<^sup>2)"
    by (rule reach_push_bounds(2) [OF reach_fields(4,9,10)]) simp
  also have "\<dots> \<le> 1408 / 100000"
    by (rule real_le_lsqrt) (simp_all add: power2_eq_square)
  finally show "?U \<le> 1408 / 100000" .
qed

text \<open>
  C6, as the claim states it, fails in two ways, shown on the Frigate of \<open>GameWorld\<close> once
  it has settled on a flat sea (at rest, heading 0), with the wind from 105 degrees (inside
  the optimal sector) and the forward key down. At a frame time of 1/64 s the ship with the
  hull integrity at 0.5 and the ship with the rudder integrity at 0.5 tend to the same
  terminal speed as the intact ship, a speed between 0.189 and 0.19, below the cap 0.27.
  At a frame time of 1/16 s the intact ship, the ship with the sail integrity at 0.5 and
  the ship with the mast integrity at 0.5 all tend to the cap 0.27.
\<close>
theorem C6_hull_rudder_cap_counterexample:
  "isInitialized settledShip
   \<and> velocity settledShip = vec 0 0 0
   \<and> angleBetweenWindAndShip reachEnv settledShip = 7 * pi / 12
   \<and> getPointOfSailMultiplier (angleBetweenWindAndShip reachEnv settledShip) = 1
   \<and> speedAfter (+) reachEnv (1 / 64) settledShip
       \<longlonglongrightarrow> terminalSpeed reachEnv (1 / 64) settledShip
   \<and> speedAfter (+) (reachEnv\<lparr>damage := createDefaultShipDamage\<lparr>hullIntegrity := 1 / 2\<rparr>\<rparr>)
         (1 / 64) settledShip
       \<longlonglongrightarrow> terminalSpeed reachEnv (1 / 64) settledShip
   \<and> speedAfter (+) (reachEnv\<lparr>damage := createDefaultShipDamage\<lparr>rudderIntegrity := 1 / 2\<rparr>\<rparr>)
         (1 / 64) settledShip
       \<longlonglongrightarrow> terminalSpeed reachEnv (1 / 64) settledShip
   \<and> 189 / 1000 < terminalSpeed reachEnv (1 / 64) settledShip
   \<and> terminalSpeed reachEnv (1 / 64) settledShip < 19 / 100
   \<and> maxSpeed reachEnv settledShip = 27 / 100
   \<and> speedAfter (+) reachEnv (1 / 16) settledShip \<longlonglongrightarrow> 27 / 100
   \<and> speedAfter (+) (reachEnv\<lparr>damage := createDefaultShipDamage\<lparr>sailIntegrity := 1 / 2\<rparr>\<rparr>)
         (1 / 16) settledShip
       \<longlonglongrightarrow> 27 / 100
   \<and> speedAfter (+) (reachEnv\<lparr>damage := createDefaultShipDamage\<lparr>mastIntegrity := 1 / 2\<rparr>\<rparr>)
         (1 / 16) settledShip
       \<longlonglongrightarrow> 27 / 100"
proof -
  have e: "sailEfficiency createDefaultShipDamage = 1"
    "sailEfficiency (createDefaultShipDamage\<lparr>hullIntegrity := 1 / 2\<rparr>) = 1"
    "sailEfficiency (createDefaultShipDamage\<lparr>rudderIntegrity := 1 / 2\<rparr>) = 1"
    "sailEfficiency (createDefaultShipDamage\<lparr>sailIntegrity := 1 / 2\<rparr>) = 1 / 2"
    "sailEfficiency (createDefaultShipDamage\<lparr>mastIntegrity := 1 / 2\<rparr>) = 1 / 2"
    by (simp_all add: sailEfficiency_def createDefaultShipDamage_def)
  have f: "shipRotation settledShip = 0"
    "wind reachEnv = setDirection (7 * pi / 12) initialState" "shipClass reachEnv = Frigate"
    "direction (wind reachEnv) = 7 * pi / 12" "sailEfficiency (damage reachEnv) = 1"
    by (simp_all only: settled_fields) (simp_all add: initialEnv_def setDirection_def e(1))
  have a: "angleBetweenWindAndShip reachEnv settledShip = 7 * pi / 12"
    by (rule reach_angle [OF f(1,4)])
  have m: "getPointOfSailMultiplier (angleBetweenWindAndShip reachEnv settledShip) = 1"
    unfolding a by (rule reach_multiplier)
  define U where "U = horizontalSpeed (drive reachEnv (1 / 64) settledShip)"
  have U: "9 / 640 \<le> U" "U \<le> 1408 / 100000"
    unfolding U_def using reach_push_64 [of createDefaultShipDamage]
    by (simp_all only: reach_fields(11))
  have T: "terminalSpeed reachEnv (1 / 64) settledShip = min (27 / 100) (931 / 69 * (\<bar>1\<bar> * U))"
    unfolding reach_terminalSpeed [OF f(1-3)] f(5) U_def ..
  have lo: "189 / 1000 < terminalSpeed reachEnv (1 / 64) settledShip"
    unfolding T using U by simp
  have hi: "terminalSpeed reachEnv (1 / 64) settledShip < 19 / 100"
    unfolding T using U by simp
  have M: "maxSpeed reachEnv settledShip = 27 / 100" by (rule reach_values(2) [OF f(1-3)])
  show ?thesis
    by (intro conjI settled_fields(3,5) a m reach_uncapped [OF e(1), unfolded reach_fields(11)]
        reach_uncapped [OF e(2)] reach_uncapped [OF e(3)] lo hi M
        reach_capped [OF disjI1 [OF e(1)], unfolded reach_fields(11)]
        reach_capped [OF disjI2 [OF e(4)]] reach_capped [OF disjI2 [OF e(5)]])
qed

theorem C6_sail_mast_terminal_speed_witness:
  "speedAfter (+) reachEnv (1 / 64) settledShip
     \<longlonglongrightarrow> terminalSpeed reachEnv (1 / 64) settledShip
   \<and> speedAfter (+) (reachEnv\<lparr>damage := createDefaultShipDamage\<lparr>sailIntegrity := 1 / 2\<rparr>\<rparr>)
         (1 / 64) settledShip
       \<longlonglongrightarrow>
         terminalSpeed (reachEnv\<lparr>damage := createDefaultShipDamage\<lparr>sailIntegrity := 1 / 2\<rparr>\<rparr>)
           (1 / 64) settledShip
   \<and> terminalSpeed (reachEnv\<lparr>damage := createDefaultShipDamage\<lparr>sailIntegrity := 1 / 2\<rparr>\<rparr>)
         (1 / 64) settledShip
       < terminalSpeed reachEnv (1 / 64) settledShip
   \<and> terminalSpeed (reachEnv\<lparr>damage := createDefaultShipDamage\<lparr>sailIntegrity := 1 / 2\<rparr>\<rparr>)
         (1 / 64) settledShip
       < 1 / 10
   \<and> terminalSpeed reachEnv (1 / 64) settledShip \<le> 27 / 100"
proof -
  let ?d = "createDefaultShipDamage\<lparr>sailIntegrity := 1 / 2\<rparr>"
  let ?h = "createDefaultShipDamage\<lparr>hullIntegrity := 1 / 2\<rparr>"
  let ?e = "reachEnv\<lparr>damage := ?d\<rparr>"
  have inp: "forward reachEnv" "\<not> backward reachEnv" "\<not> left reachEnv" "\<not> right reachEnv"
    "(0::real) < 1 / 64" "damage reachEnv = createDefaultShipDamage"
    by (simp_all add: initialEnv_def)
  have f: "shipRotation settledShip = 0"
    "wind reachEnv = setDirection (7 * pi / 12) initialState" "shipClass reachEnv = Frigate"
    by (simp_all only: settled_fields) (simp_all add: initialEnv_def)
  have M: "maxSpeed reachEnv settledShip = 27 / 100" by (rule reach_values(2) [OF f])
  have eff: "sailEfficiency (damage ?e) = 1 / 2"
    by (simp add: sailEfficiency_def createDefaultShipDamage_def)
  define U where "U = horizontalSpeed (drive ?e (1 / 64) settledShip)"
  have U: "9 / 640 \<le> U" "U \<le> 1408 / 100000"
    unfolding U_def by (rule reach_push_64)+
  have T: "terminalSpeed ?e (1 / 64) settledShip = min (27 / 100) (931 / 69 * (\<bar>1 / 2\<bar> * U))"
    unfolding reach_terminalSpeed [OF reach_fields(4,9,10)] eff U_def ..
  have below: "terminalSpeed ?e (1 / 64) settledShip < 1 / 10"
    unfolding T using U by simp
  show ?thesis
    using C6_sail_mast_terminal_speed [OF reach_fields(1-3) inp disjI1 [OF refl] disjI1 [OF refl],
        of "(+)"] below
    by (simp add: M)
qed

end
